theory Spec2Isabelle
  imports Main "HOL-Library.Sublist" "HOL-Library.AList"
begin

section \<open>The score-export splitter \<open>nrks.py\<close>\<close>

text \<open>
  The script \<^verbatim>\<open>src/nrks.py\<close> walks over the \<^verbatim>\<open>.csv\<close> files of the working directory,
  strips the marker \<^verbatim>\<open>_combined\<close> from each file name, loads the file as a table, creates a
  folder named after the song, moves the input file there, writes the whole table as a
  spreadsheet and writes one pair of files per difficulty tier.

  The repository's own functions (\<^verbatim>\<open>remove_combined_suffix\<close>, \<^verbatim>\<open>create_song_folder\<close>,
  \<^verbatim>\<open>split_by_difficulty\<close>, \<^verbatim>\<open>main\<close>) are embedded line by line. The library calls they make
  (\<^verbatim>\<open>os\<close>, \<^verbatim>\<open>shutil\<close>, \<^verbatim>\<open>pandas\<close>, \<^verbatim>\<open>str\<close>) are modelled by the primitives of the first
  sections, over an explicit world: a file system, the working directory and a store of
  table objects. Console output (\<^verbatim>\<open>print\<close>) is left out.
\<close>

subsection \<open>Errors and results\<close>

text \<open>Every exception the script can die from is a value; \<open>Inl\<close> carries it.\<close>

datatype error =
    KeyError
  | IndexError
  | TypeError
  | FileNotFoundError
  | FileExistsError
  | IsADirectoryError
  | NotADirectoryError
  | OSError
  | ParserError
  | ShutilError

subsection \<open>Python strings\<close>

text \<open>\<^verbatim>\<open>sub in s\<close>: \<open>sub\<close> occurs in \<open>s\<close> as a contiguous substring.\<close>

fun str_contains :: "string \<Rightarrow> string \<Rightarrow> bool" where
  "str_contains sub [] = (sub = [])"
| "str_contains sub (c # cs) = (prefix sub (c # cs) \<or> str_contains sub cs)"

text \<open>
  \<^verbatim>\<open>s.replace(old, new)\<close> for a non-empty \<open>old\<close>: a scan from the left that replaces
  every occurrence it meets and continues behind it (occurrences do not overlap).
\<close>

fun replace_scan :: "string \<Rightarrow> string \<Rightarrow> string \<Rightarrow> string" where
  "replace_scan old new [] = []"
| "replace_scan old new (c # cs) =
     (if prefix old (c # cs) then new @ replace_scan old new (drop (length old - 1) cs)
      else c # replace_scan old new cs)"

text \<open>With an empty \<open>old\<close>, Python puts \<open>new\<close> before every character and at the end.\<close>

definition str_replace :: "string \<Rightarrow> string \<Rightarrow> string \<Rightarrow> string" where
  "str_replace old new s =
     (if old = [] then new @ concat (map (\<lambda>c. c # new) s) else replace_scan old new s)"

text \<open>\<^verbatim>\<open>s.count(old)\<close> for a non-empty \<open>old\<close>: the occurrences the same scan meets.\<close>

fun count_scan :: "string \<Rightarrow> string \<Rightarrow> nat" where
  "count_scan old [] = 0"
| "count_scan old (c # cs) =
     (if prefix old (c # cs) then Suc (count_scan old (drop (length old - 1) cs))
      else count_scan old cs)"

text \<open>
  \<open>removes_one m s t\<close>: \<open>t\<close> is \<open>s\<close> with exactly one occurrence of \<open>m\<close> cut out, at some
  position.
\<close>

definition removes_one :: "string \<Rightarrow> string \<Rightarrow> string \<Rightarrow> bool" where
  "removes_one m s t = list_ex (\<lambda>i. s = take i t @ m @ drop i t) [0..<Suc (length t)]"

subsection \<open>POSIX paths\<close>

text \<open>\<^verbatim>\<open>os.path.join(a, b)\<close> of \<^verbatim>\<open>posixpath\<close>, for two strings.\<close>

definition path_join :: "string \<Rightarrow> string \<Rightarrow> string" where
  "path_join a b =
     (if prefix ''/'' b then b
      else if a = [] \<or> suffix ''/'' a then a @ b
      else a @ ''/'' @ b)"

definition rstrip_sep :: "string \<Rightarrow> string" where
  "rstrip_sep p = rev (dropWhile (\<lambda>c. c = CHR ''/'') (rev p))"

text \<open>\<^verbatim>\<open>os.path.dirname\<close>: the part up to the last separator, trailing separators removed
  unless it consists of separators only.\<close>

definition dirname :: "string \<Rightarrow> string" where
  "dirname p =
     (let head = rev (dropWhile (\<lambda>c. c \<noteq> CHR ''/'') (rev p))
      in if head \<noteq> [] \<and> \<not> list_all (\<lambda>c. c = CHR ''/'') head then rstrip_sep head else head)"

text \<open>The last component, after trailing separators are dropped (\<^verbatim>\<open>shutil._basename\<close>).\<close>

definition basename :: "string \<Rightarrow> string" where
  "basename p = rev (takeWhile (\<lambda>c. c \<noteq> CHR ''/'') (rev (rstrip_sep p)))"

text \<open>The proper ancestors of a path, outermost first: what \<^verbatim>\<open>os.makedirs\<close> creates on
  the way.\<close>

fun dir_prefixes :: "string \<Rightarrow> string \<Rightarrow> string list" where
  "dir_prefixes acc [] = []"
| "dir_prefixes acc (c # cs) =
     (if c = CHR ''/'' \<and> acc \<noteq> [] \<and> \<not> suffix ''/'' acc then [acc] else [])
       @ dir_prefixes (acc @ [c]) cs"

subsection \<open>Tables\<close>

text \<open>
  A cell of a loaded table is a Python string or some other value (a number, a missing
  value); of the latter the script only ever uses the text \<^verbatim>\<open>str\<close> gives.
\<close>

datatype cell = Str string | NonStr string

text \<open>What an f-string prints for a cell.\<close>

fun fmt :: "cell \<Rightarrow> string" where
  "fmt (Str s) = s"
| "fmt (NonStr r) = r"

text \<open>A \<^verbatim>\<open>DataFrame\<close>: the column labels and the rows, each with its index label.\<close>

record dataframe =
  columns :: "string list"
  rows :: "(nat \<times> cell list) list"

text \<open>The cell of a row under a column label; a missing cell reads as the missing value.\<close>

definition cell_of :: "string list \<Rightarrow> cell list \<Rightarrow> string \<Rightarrow> cell" where
  "cell_of cols r c = (case map_of (zip cols r) c of Some v \<Rightarrow> v | None \<Rightarrow> NonStr ''nan'')"

text \<open>\<^verbatim>\<open>df[df[c] == v]\<close> for a string \<open>v\<close>: the rows whose cell under \<open>c\<close> is that string, with
  their index labels, in their order.\<close>

definition select_rows :: "dataframe \<Rightarrow> string \<Rightarrow> string \<Rightarrow> dataframe" where
  "select_rows df c v =
     df\<lparr>rows := filter (\<lambda>(i, r). cell_of (columns df) r c = Str v) (rows df)\<rparr>"

text \<open>\<^verbatim>\<open>df.drop(columns=cs, errors='ignore')\<close>: a new table without the columns labelled in
  \<open>cs\<close>; labels that are not there are ignored.\<close>

definition drop_cells :: "string list \<Rightarrow> string list \<Rightarrow> cell list \<Rightarrow> cell list" where
  "drop_cells cs cols r = map snd (filter (\<lambda>(n, v). n \<notin> set cs) (zip cols r))"

definition drop_columns :: "string list \<Rightarrow> dataframe \<Rightarrow> dataframe" where
  "drop_columns cs df =
     \<lparr>columns = filter (\<lambda>c. c \<notin> set cs) (columns df),
      rows = map (\<lambda>(i, r). (i, drop_cells cs (columns df) r)) (rows df)\<rparr>"

text \<open>\<^verbatim>\<open>df.empty\<close>: some axis has length zero.\<close>

definition df_empty :: "dataframe \<Rightarrow> bool" where
  "df_empty df = (rows df = [] \<or> columns df = [])"

subsection \<open>The world\<close>

text \<open>
  A file holds delimited text or a spreadsheet, each standing for the header and the data
  rows it serialises, or something no table can be read from. The index labels are not
  part of a file: both writers are called with \<^verbatim>\<open>index=False\<close>.
\<close>

datatype content =
    Delimited "string list" "cell list list"
  | Sheet "string list" "cell list list"
  | Unparsable

datatype node = File content | Dir

text \<open>
  The file system maps absolute path strings to nodes (the first entry of a path counts);
  directories are explicit entries. Paths are compared as strings, so the model is exact
  for paths without \<^verbatim>\<open>.\<close>, \<^verbatim>\<open>..\<close>, empty components and symbolic links. The store maps
  references to table objects; \<open>next_ref\<close> is the first reference not yet in use.
\<close>

record world =
  nodes :: "(string \<times> node) list"
  cwd :: string
  frames :: "nat \<Rightarrow> dataframe"
  next_ref :: nat

type_synonym 'a io = "world \<Rightarrow> (error + 'a) \<times> world"

definition lookup :: "world \<Rightarrow> string \<Rightarrow> node option" where
  "lookup w p = map_of (nodes w) p"

definition is_dir :: "world \<Rightarrow> string \<Rightarrow> bool" where
  "is_dir w p = (lookup w p = Some Dir)"

text \<open>A relative path is resolved against the working directory.\<close>

definition abspath :: "world \<Rightarrow> string \<Rightarrow> string" where
  "abspath w p = path_join (cwd w) p"

subsection \<open>File-system primitives\<close>

text \<open>Opening a path for writing and storing a content there: the parent must be a
  directory and the path must not be one; an existing file is overwritten.\<close>

definition write_file :: "string \<Rightarrow> content \<Rightarrow> unit io" where
  "write_file path c w =
     (let p = abspath w path in
      if is_dir w p then (Inl IsADirectoryError, w)
      else if \<not> is_dir w (dirname p) then (Inl OSError, w)
      else (Inr (), w\<lparr>nodes := AList.update p (File c) (nodes w)\<rparr>))"

text \<open>Is there an entry strictly below the directory \<open>d\<close>?\<close>

definition has_children :: "world \<Rightarrow> string \<Rightarrow> bool" where
  "has_children w d = list_ex (\<lambda>p. prefix (d @ ''/'') p) (map fst (nodes w))"

text \<open>Renaming a directory takes everything below it along.\<close>

definition rekey :: "string \<Rightarrow> string \<Rightarrow> string \<Rightarrow> string" where
  "rekey s d p =
     (if p = s then d else if prefix (s @ ''/'') p then d @ drop (length s) p else p)"

text \<open>
  \<^verbatim>\<open>os.rename(src, dst)\<close> on POSIX: the source must exist; a file replaces an existing
  file silently but not a directory; a directory replaces only an empty directory and
  cannot move below itself; an empty path names no file. A failed call changes nothing.
\<close>

definition os_rename :: "string \<Rightarrow> string \<Rightarrow> unit io" where
  "os_rename src dst w =
     (if src = [] \<or> dst = [] then (Inl FileNotFoundError, w) else
      let s = abspath w src; d = abspath w dst in
      case lookup w s of
        None \<Rightarrow> (Inl FileNotFoundError, w)
      | Some (File c) \<Rightarrow>
          if is_dir w d then (Inl IsADirectoryError, w)
          else if \<not> is_dir w (dirname d) then (Inl FileNotFoundError, w)
          else (Inr (), w\<lparr>nodes := AList.update d (File c) (AList.delete s (nodes w))\<rparr>)
      | Some Dir \<Rightarrow>
          if s = d then (Inr (), w)
          else if prefix (s @ ''/'') d then (Inl OSError, w)
          else (case lookup w d of
                  Some (File _) \<Rightarrow> (Inl NotADirectoryError, w)
                | Some Dir \<Rightarrow>
                    if has_children w d then (Inl OSError, w)
                    else (Inr (), w\<lparr>nodes :=
                            map (\<lambda>(p, n). (rekey s d p, n)) (AList.delete d (nodes w))\<rparr>)
                | None \<Rightarrow>
                    if \<not> is_dir w (dirname d) then (Inl FileNotFoundError, w)
                    else (Inr (), w\<lparr>nodes := map (\<lambda>(p, n). (rekey s d p, n)) (nodes w)\<rparr>)))"

text \<open>
  \<^verbatim>\<open>shutil.move(src, dst)\<close>: onto the same directory it is a rename onto itself; into
  another existing directory it moves below it under the source's base name, unless that
  name is taken; otherwise it is \<^verbatim>\<open>os.rename\<close>. The copy-and-delete fallback of the library
  serves moves across devices; on the one file system of the model it fails wherever the
  rename did.
\<close>

definition shutil_move :: "string \<Rightarrow> string \<Rightarrow> unit io" where
  "shutil_move src dst w =
     (let s = abspath w src; d = abspath w dst in
      if is_dir w d then
        (if s = d then os_rename s d w
         else let real_dst = path_join d (basename s) in
              if lookup w real_dst \<noteq> None then (Inl ShutilError, w)
              else os_rename s real_dst w)
      else os_rename s d w)"

text \<open>
  \<^verbatim>\<open>os.makedirs(path, exist_ok=True)\<close>: the ancestors and the path itself are created in
  turn where they are missing; a file in the way is an error, and what was created before
  stays.
\<close>

fun make_all :: "string list \<Rightarrow> (string \<times> node) list \<Rightarrow> (error + unit) \<times> (string \<times> node) list" where
  "make_all [] ns = (Inr (), ns)"
| "make_all (p # ps) ns =
     (case map_of ns p of
        Some (File _) \<Rightarrow> (Inl (if ps = [] then FileExistsError else NotADirectoryError), ns)
      | Some Dir \<Rightarrow> make_all ps ns
      | None \<Rightarrow> make_all ps (AList.update p Dir ns))"

definition os_makedirs :: "string \<Rightarrow> unit io" where
  "os_makedirs path w =
     (let p = abspath w path in
      case make_all (dir_prefixes [] p @ [p]) (nodes w) of
        (r, ns) \<Rightarrow> (r, w\<lparr>nodes := ns\<rparr>))"

text \<open>\<^verbatim>\<open>os.listdir(d)\<close>: the names of the entries directly in \<open>d\<close>, in the order the file
  system holds them.\<close>

definition os_listdir :: "string \<Rightarrow> string list io" where
  "os_listdir dir w =
     (let d = abspath w dir; d' = (if suffix ''/'' d then d else d @ ''/'') in
      if \<not> is_dir w d then (Inl FileNotFoundError, w)
      else (Inr (remdups (filter (\<lambda>n. n \<noteq> [] \<and> CHR ''/'' \<notin> set n)
                   (map (drop (length d')) (filter (prefix d') (map fst (nodes w)))))), w))"

subsection \<open>Table primitives\<close>

text \<open>A new table object is stored under a fresh reference.\<close>

definition alloc :: "dataframe \<Rightarrow> nat io" where
  "alloc df w =
     (Inr (next_ref w),
      w\<lparr>frames := (frames w)(next_ref w := df), next_ref := Suc (next_ref w)\<rparr>)"

text \<open>
  \<^verbatim>\<open>pd.read_csv(path)\<close>. The parser is library code; a delimited file stands for the header
  and rows the parser yields, a rectangular table with distinct column labels, and any
  other content for text the parser rejects. The rows are labelled \<open>0, 1, \<dots>\<close>.
\<close>

definition read_csv :: "string \<Rightarrow> nat io" where
  "read_csv path w =
     (case lookup w (abspath w path) of
        None \<Rightarrow> (Inl FileNotFoundError, w)
      | Some Dir \<Rightarrow> (Inl IsADirectoryError, w)
      | Some (File (Delimited h rs)) \<Rightarrow>
          if h \<noteq> [] \<and> distinct h \<and> list_all (\<lambda>r. length r = length h) rs
          then alloc \<lparr>columns = h, rows = zip [0..<length rs] rs\<rparr> w
          else (Inl ParserError, w)
      | Some (File _) \<Rightarrow> (Inl ParserError, w))"

text \<open>\<^verbatim>\<open>df[c].iloc[0]\<close>: the column must exist, and so must a first row.\<close>

definition column_first :: "nat \<Rightarrow> string \<Rightarrow> cell io" where
  "column_first df c w =
     (if c \<notin> set (columns (frames w df)) then (Inl KeyError, w)
      else case rows (frames w df) of
             [] \<Rightarrow> (Inl IndexError, w)
           | (i, r) # _ \<Rightarrow> (Inr (cell_of (columns (frames w df)) r c), w))"

text \<open>\<^verbatim>\<open>df[df[c] == v]\<close>: the column must exist; the selection is a new object.\<close>

definition getitem_eq :: "nat \<Rightarrow> string \<Rightarrow> string \<Rightarrow> nat io" where
  "getitem_eq df c v w =
     (if c \<notin> set (columns (frames w df)) then (Inl KeyError, w)
      else alloc (select_rows (frames w df) c v) w)"

text \<open>\<^verbatim>\<open>df.drop(columns=cs, errors='ignore')\<close>: never an error, and a new object.\<close>

definition df_drop :: "nat \<Rightarrow> string list \<Rightarrow> nat io" where
  "df_drop df cs w = alloc (drop_columns cs (frames w df)) w"

text \<open>\<^verbatim>\<open>df.to_csv(path, index=False)\<close> and \<^verbatim>\<open>df.to_excel(path, index=False)\<close>.\<close>

definition to_csv :: "nat \<Rightarrow> string \<Rightarrow> unit io" where
  "to_csv df path w =
     write_file path (Delimited (columns (frames w df)) (map snd (rows (frames w df)))) w"

definition to_excel :: "nat \<Rightarrow> string \<Rightarrow> unit io" where
  "to_excel df path w =
     write_file path (Sheet (columns (frames w df)) (map snd (rows (frames w df)))) w"

subsection \<open>The script\<close>

text \<open>Lines 5 to 11.\<close>

definition remove_combined_suffix :: "string \<Rightarrow> string io" where
  "remove_combined_suffix file_path w =
     (if str_contains ''_combined'' file_path then
        (let new_name = str_replace ''_combined'' '''' file_path in
         case os_rename file_path new_name w of
           (Inl e, w') \<Rightarrow> (Inl e, w')
         | (Inr _, w') \<Rightarrow> (Inr new_name, w'))
      else (Inr file_path, w))"

text \<open>Lines 13 to 17. \<^verbatim>\<open>os.path.join\<close> raises \<^verbatim>\<open>TypeError\<close> on a component that is not a
  string.\<close>

definition create_song_folder :: "cell \<Rightarrow> string \<Rightarrow> string io" where
  "create_song_folder song_name output_dir w =
     (case song_name of
        NonStr _ \<Rightarrow> (Inl TypeError, w)
      | Str s \<Rightarrow>
          (let song_folder = path_join output_dir s in
           case os_makedirs song_folder w of
             (Inl e, w') \<Rightarrow> (Inl e, w')
           | (Inr _, w') \<Rightarrow> (Inr song_folder, w')))"

text \<open>Lines 23 to 35, the body of the loop over the tiers.\<close>

definition split_by_difficulty_body :: "nat \<Rightarrow> cell \<Rightarrow> string \<Rightarrow> string \<Rightarrow> unit io" where
  "split_by_difficulty_body df song_name song_folder difficulty w =
     (case getitem_eq df ''difficulty'' difficulty w of
        (Inl e, w1) \<Rightarrow> (Inl e, w1)
      | (Inr difficulty_data, w1) \<Rightarrow>
          if \<not> df_empty (frames w1 difficulty_data) then
            (case df_drop difficulty_data [''song_name''] w1 of
               (Inl e, w2) \<Rightarrow> (Inl e, w2)
             | (Inr difficulty_data', w2) \<Rightarrow>
                 (let csv_file = path_join song_folder (fmt song_name @ ''_'' @ difficulty @ ''.csv'');
                      excel_file = path_join song_folder (fmt song_name @ ''_'' @ difficulty @ ''.xlsx'')
                  in case to_csv difficulty_data' csv_file w2 of
                       (Inl e, w3) \<Rightarrow> (Inl e, w3)
                     | (Inr _, w3) \<Rightarrow> to_excel difficulty_data' excel_file w3))
          else (Inr (), w1))"

fun split_by_difficulty_loop :: "nat \<Rightarrow> cell \<Rightarrow> string \<Rightarrow> string list \<Rightarrow> unit io" where
  "split_by_difficulty_loop df song_name song_folder [] w = (Inr (), w)"
| "split_by_difficulty_loop df song_name song_folder (difficulty # ds) w =
     (case split_by_difficulty_body df song_name song_folder difficulty w of
        (Inl e, w') \<Rightarrow> (Inl e, w')
      | (Inr _, w') \<Rightarrow> split_by_difficulty_loop df song_name song_folder ds w')"

text \<open>Line 21.\<close>

definition difficulties :: "string list" where
  "difficulties = [''EZ'', ''HD'', ''IN'', ''AT'']"

text \<open>Lines 19 to 35.\<close>

definition split_by_difficulty :: "nat \<Rightarrow> cell \<Rightarrow> string \<Rightarrow> unit io" where
  "split_by_difficulty df song_name song_folder =
     split_by_difficulty_loop df song_name song_folder difficulties"

text \<open>Lines 64 to 67 of \<^verbatim>\<open>main\<close>: the export of the whole table.\<close>

definition whole_song_export :: "nat \<Rightarrow> cell \<Rightarrow> string \<Rightarrow> unit io" where
  "whole_song_export df song_name song_folder w =
     (case df_drop df [''song_name''] w of
        (Inl e, w1) \<Rightarrow> (Inl e, w1)
      | (Inr df_without_name, w1) \<Rightarrow>
          (let excel_file = path_join song_folder (fmt song_name @ ''.xlsx'')
           in to_excel df_without_name excel_file w1))"

text \<open>Lines 47 to 70, the body of the loop over the input files.\<close>

definition main_body :: "string \<Rightarrow> string \<Rightarrow> unit io" where
  "main_body output_dir file_name w =
     (case remove_combined_suffix file_name w of
        (Inl e, w1) \<Rightarrow> (Inl e, w1)
      | (Inr file_path, w1) \<Rightarrow>
     (case read_csv file_path w1 of
        (Inl e, w2) \<Rightarrow> (Inl e, w2)
      | (Inr df, w2) \<Rightarrow>
     (case column_first df ''song_name'' w2 of
        (Inl e, w3) \<Rightarrow> (Inl e, w3)
      | (Inr song_name, w3) \<Rightarrow>
     (case create_song_folder song_name output_dir w3 of
        (Inl e, w4) \<Rightarrow> (Inl e, w4)
      | (Inr song_folder, w4) \<Rightarrow>
     (case shutil_move file_path (path_join song_folder file_name) w4 of
        (Inl e, w5) \<Rightarrow> (Inl e, w5)
      | (Inr _, w5) \<Rightarrow>
     (case whole_song_export df song_name song_folder w5 of
        (Inl e, w6) \<Rightarrow> (Inl e, w6)
      | (Inr _, w6) \<Rightarrow> split_by_difficulty df song_name song_folder w6))))))"

fun main_loop :: "string \<Rightarrow> string list \<Rightarrow> unit io" where
  "main_loop output_dir [] w = (Inr (), w)"
| "main_loop output_dir (file_name # fs) w =
     (case main_body output_dir file_name w of
        (Inl e, w') \<Rightarrow> (Inl e, w')
      | (Inr _, w') \<Rightarrow> main_loop output_dir fs w')"

text \<open>Lines 37 to 75.\<close>

definition main :: "unit io" where
  "main w =
     (let current_dir = cwd w;
          output_dir = path_join current_dir ''generated_files''
      in case os_makedirs output_dir w of
           (Inl e, w1) \<Rightarrow> (Inl e, w1)
         | (Inr _, w1) \<Rightarrow>
        (case os_listdir current_dir w1 of
           (Inl e, w2) \<Rightarrow> (Inl e, w2)
         | (Inr listing, w2) \<Rightarrow>
        (let files = filter (suffix ''.csv'') listing
         in case main_loop output_dir files w2 of
              (Inl e, w3) \<Rightarrow> (Inl e, w3)
            | (Inr _, w3) \<Rightarrow>
                shutil_move output_dir (path_join current_dir ''generated_files'') w3)))"

subsection \<open>Example worlds\<close>

text \<open>Concrete inputs on which the script is run below. The store is empty at the start.\<close>

definition empty_store :: "nat \<Rightarrow> dataframe" where
  "empty_store = (\<lambda>_. \<lparr>columns = [], rows = []\<rparr>)"

text \<open>The scores of one song: one row in \<^verbatim>\<open>EZ\<close>, two in \<^verbatim>\<open>HD\<close>, one in \<^verbatim>\<open>IN\<close>.\<close>

definition example_table :: content where
  "example_table =
     Delimited [''song_name'', ''difficulty'', ''score'']
       [[Str ''Airglow'', Str ''EZ'', NonStr ''1''],
        [Str ''Airglow'', Str ''HD'', NonStr ''2''],
        [Str ''Airglow'', Str ''HD'', NonStr ''3''],
        [Str ''Airglow'', Str ''IN'', NonStr ''4'']]"

definition example_world :: world where
  "example_world =
     \<lparr>nodes = [(''/w'', Dir), (''/w/song_combined.csv'', File example_table)],
      cwd = ''/w'', frames = empty_store, next_ref = 0\<rparr>"

text \<open>A file whose name carries the marker twice.\<close>

definition twice_marked_world :: world where
  "twice_marked_world =
     \<lparr>nodes = [(''/w'', Dir), (''/w/a_combined_combined.csv'', File Unparsable)],
      cwd = ''/w'', frames = empty_store, next_ref = 0\<rparr>"

text \<open>A table with a row whose tier is none of the four.\<close>

definition unknown_tier_world :: world where
  "unknown_tier_world =
     \<lparr>nodes = [(''/w'', Dir),
               (''/w/t.csv'', File (Delimited [''song_name'', ''difficulty'', ''score'']
                  [[Str ''Airglow'', Str ''EZ'', NonStr ''1''],
                   [Str ''Airglow'', Str ''Legacy'', NonStr ''2'']]))],
      cwd = ''/w'', frames = empty_store, next_ref = 0\<rparr>"

text \<open>Three input files, the second of which cannot be parsed.\<close>

definition abort_world :: world where
  "abort_world =
     \<lparr>nodes = [(''/w'', Dir), (''/w/a.csv'', File example_table),
               (''/w/b.csv'', File Unparsable), (''/w/c.csv'', File example_table)],
      cwd = ''/w'', frames = empty_store, next_ref = 0\<rparr>"

text \<open>An input file with a header and no data rows.\<close>

definition header_only_world :: world where
  "header_only_world =
     \<lparr>nodes = [(''/w'', Dir), (''/w/generated_files'', Dir),
               (''/w/e_combined.csv'', File (Delimited [''song_name'', ''difficulty'', ''score''] []))],
      cwd = ''/w'', frames = empty_store, next_ref = 0\<rparr>"

text \<open>Two input files, the first of which has no \<^verbatim>\<open>difficulty\<close> column.\<close>

definition schema_error_world :: world where
  "schema_error_world =
     \<lparr>nodes = [(''/w'', Dir),
               (''/w/a.csv'', File (Delimited [''song_name'', ''score''] [[Str ''S'', NonStr ''1'']])),
               (''/w/c.csv'', File example_table)],
      cwd = ''/w'', frames = empty_store, next_ref = 0\<rparr>"

text \<open>A table without a \<^verbatim>\<open>song_name\<close> column.\<close>

definition no_song_column_world :: world where
  "no_song_column_world =
     \<lparr>nodes = [(''/w'', Dir),
               (''/w/u.csv'', File (Delimited [''difficulty'', ''score''] [[Str ''EZ'', NonStr ''1'']]))],
      cwd = ''/w'', frames = empty_store, next_ref = 0\<rparr>"

text \<open>
  One input file of one row, in file systems where something stands in the way of the run:
  a file where the song folder goes, a directory that already holds the input file's name
  where the input file goes, a directory where the whole-song spreadsheet, the first tier's
  delimited file or the first tier's spreadsheet goes, and a file where the output
  directory goes.
\<close>

definition one_row_table :: content where
  "one_row_table =
     Delimited [''song_name'', ''difficulty'', ''score''] [[Str ''S'', Str ''EZ'', NonStr ''1'']]"

definition folder_blocked_world :: world where
  "folder_blocked_world =
     \<lparr>nodes = [(''/w'', Dir), (''/w/a.csv'', File one_row_table),
               (''/w/generated_files'', Dir), (''/w/generated_files/S'', File Unparsable)],
      cwd = ''/w'', frames = empty_store, next_ref = 0\<rparr>"

definition target_taken_world :: world where
  "target_taken_world =
     \<lparr>nodes = [(''/w'', Dir), (''/w/a.csv'', File one_row_table),
               (''/w/generated_files'', Dir), (''/w/generated_files/S'', Dir),
               (''/w/generated_files/S/a.csv'', Dir),
               (''/w/generated_files/S/a.csv/a.csv'', File Unparsable)],
      cwd = ''/w'', frames = empty_store, next_ref = 0\<rparr>"

definition sheet_blocked_world :: world where
  "sheet_blocked_world =
     \<lparr>nodes = [(''/w'', Dir), (''/w/a.csv'', File one_row_table),
               (''/w/generated_files'', Dir), (''/w/generated_files/S'', Dir),
               (''/w/generated_files/S/S.xlsx'', Dir)],
      cwd = ''/w'', frames = empty_store, next_ref = 0\<rparr>"

definition tier_csv_blocked_world :: world where
  "tier_csv_blocked_world =
     \<lparr>nodes = [(''/w'', Dir), (''/w/a.csv'', File one_row_table),
               (''/w/generated_files'', Dir), (''/w/generated_files/S'', Dir),
               (''/w/generated_files/S/S_EZ.csv'', Dir)],
      cwd = ''/w'', frames = empty_store, next_ref = 0\<rparr>"

definition tier_sheet_blocked_world :: world where
  "tier_sheet_blocked_world =
     \<lparr>nodes = [(''/w'', Dir), (''/w/a.csv'', File one_row_table),
               (''/w/generated_files'', Dir), (''/w/generated_files/S'', Dir),
               (''/w/generated_files/S/S_EZ.xlsx'', Dir)],
      cwd = ''/w'', frames = empty_store, next_ref = 0\<rparr>"

definition output_blocked_world :: world where
  "output_blocked_world =
     \<lparr>nodes = [(''/w'', Dir), (''/w/a.csv'', File one_row_table),
               (''/w/generated_files'', File Unparsable)],
      cwd = ''/w'', frames = empty_store, next_ref = 0\<rparr>"

text \<open>A marked input file whose name without the marker is the name of a directory.\<close>

definition marked_directory_world :: world where
  "marked_directory_world =
     \<lparr>nodes = [(''/w'', Dir), (''/w/x_combined.csv'', File one_row_table), (''/w/x.csv'', Dir)],
      cwd = ''/w'', frames = empty_store, next_ref = 0\<rparr>"

subsection \<open>Notions the claims speak of\<close>

text \<open>The Difficulty Partition of a tier: the rows of the object that line 24,
  \<^verbatim>\<open>df[df['difficulty'] == difficulty]\<close>, evaluates to.\<close>

definition partition_rows :: "nat \<Rightarrow> string \<Rightarrow> world \<Rightarrow> (nat \<times> cell list) list" where
  "partition_rows df d w =
     (case getitem_eq df ''difficulty'' d w of
        (Inr p, w') \<Rightarrow> rows (frames w' p)
      | (Inl e, w') \<Rightarrow> [])"

text \<open>The paths lines 29 and 30 build for a tier (\<open>ext\<close> is \<^verbatim>\<open>.csv\<close> or \<^verbatim>\<open>.xlsx\<close>) and the
  path line 66 builds for the whole song, as the file system resolves them.\<close>

definition tier_path :: "world \<Rightarrow> string \<Rightarrow> cell \<Rightarrow> string \<Rightarrow> string \<Rightarrow> string" where
  "tier_path w song_folder song_name d ext =
     abspath w (path_join song_folder (fmt song_name @ ''_'' @ d @ ext))"

definition song_path :: "world \<Rightarrow> string \<Rightarrow> cell \<Rightarrow> string" where
  "song_path w song_folder song_name =
     abspath w (path_join song_folder (fmt song_name @ ''.xlsx''))"

text \<open>What the script exports of a tier: the selection of line 24 without the
  \<^verbatim>\<open>song_name\<close> column of line 27.\<close>

definition tier_export :: "dataframe \<Rightarrow> string \<Rightarrow> dataframe" where
  "tier_export df d = drop_columns [''song_name''] (select_rows df ''difficulty'' d)"

text \<open>Every row has one cell per column, as in a table \<^verbatim>\<open>read_csv\<close> loads.\<close>

definition rectangular :: "dataframe \<Rightarrow> bool" where
  "rectangular df = list_all (\<lambda>(i, r). length r = length (columns df)) (rows df)"

section \<open>Properties of the primitives\<close>

subsection \<open>The replacement scan\<close>

lemma prefix_drop_tail:
  "old \<noteq> [] \<Longrightarrow> prefix old (c # cs) \<Longrightarrow> c # cs = old @ drop (length old - 1) cs"
  by (cases old) (auto simp: prefix_def)

lemma replace_scan_hit:
  "prefix old (c # cs) \<Longrightarrow>
   replace_scan old new (c # cs) = new @ replace_scan old new (drop (length old - 1) cs)"
  by simp

lemma replace_scan_miss:
  "\<not> prefix old (c # cs) \<Longrightarrow> replace_scan old new (c # cs) = c # replace_scan old new cs"
  by simp

lemma count_scan_hit:
  "prefix old (c # cs) \<Longrightarrow>
   count_scan old (c # cs) = Suc (count_scan old (drop (length old - 1) cs))"
  by simp

lemma count_scan_miss:
  "\<not> prefix old (c # cs) \<Longrightarrow> count_scan old (c # cs) = count_scan old cs"
  by simp

lemma replace_scan_length:
  "old \<noteq> [] \<Longrightarrow> length (replace_scan old [] s) + length old * count_scan old s = length s"
proof (induction old "[] :: string" s rule: replace_scan.induct)
  case (1 old)
  show ?case by simp
next
  case (2 old c cs)
  show ?case
  proof (cases "prefix old (c # cs)")
    case True
    let ?rest = "drop (length old - 1) cs"
    have split: "c # cs = old @ ?rest"
      by (rule prefix_drop_tail[OF "2.prems" True])
    have "length (c # cs) = length (old @ ?rest)"
      using split by (rule arg_cong)
    then have len: "length (c # cs) = length old + length ?rest"
      by (simp only: length_append)
    have ih: "length (replace_scan old [] ?rest) + length old * count_scan old ?rest = length ?rest"
      by (rule "2.hyps"(1)[OF True "2.prems"])
    have "length (replace_scan old [] (c # cs)) + length old * count_scan old (c # cs)
          = length (replace_scan old [] ?rest) + length old * Suc (count_scan old ?rest)"
      by (simp only: replace_scan_hit[OF True] count_scan_hit[OF True] append_Nil)
    also have "\<dots> = length old + length ?rest"
      using ih by (simp only: mult_Suc_right; arith)
    finally show ?thesis using len by (simp only:)
  next
    case False
    have ih: "length (replace_scan old [] cs) + length old * count_scan old cs = length cs"
      by (rule "2.hyps"(2)[OF False "2.prems"])
    show ?thesis
      using ih by (simp only: replace_scan_miss[OF False] count_scan_miss[OF False] length_Cons add_Suc)
  qed
qed

lemma contains_iff_count:
  "old \<noteq> [] \<Longrightarrow> str_contains old s \<longleftrightarrow> 1 \<le> count_scan old s"
proof (induction s)
  case Nil
  then show ?case by simp
next
  case (Cons c cs)
  show ?case
  proof (cases "prefix old (c # cs)")
    case True
    have "str_contains old (c # cs)" using True by (simp only: str_contains.simps; simp)
    moreover have "1 \<le> count_scan old (c # cs)" by (simp only: count_scan_hit[OF True]; simp)
    ultimately show ?thesis by blast
  next
    case False
    have "str_contains old (c # cs) = str_contains old cs"
      using False by (simp only: str_contains.simps; simp)
    then show ?thesis
      using Cons.IH[OF Cons.prems] by (simp only: count_scan_miss[OF False])
  qed
qed

lemma count_zero_replace:
  "old \<noteq> [] \<Longrightarrow> count_scan old s = 0 \<Longrightarrow> replace_scan old new s = s"
proof (induction s)
  case Nil
  show ?case by simp
next
  case (Cons c cs)
  show ?case
  proof (cases "prefix old (c # cs)")
    case True
    with Cons.prems(2) show ?thesis by (simp only: count_scan_hit[OF True]; simp)
  next
    case False
    have "count_scan old cs = 0"
      using Cons.prems(2) by (simp only: count_scan_miss[OF False])
    from Cons.IH[OF Cons.prems(1) this] show ?thesis
      by (simp only: replace_scan_miss[OF False])
  qed
qed

lemma removes_one_iff:
  "removes_one m s t \<longleftrightarrow> (\<exists>i\<le>length t. s = take i t @ m @ drop i t)"
proof -
  have "set [0..<Suc (length t)] = {i. i \<le> length t}" by auto
  then show ?thesis unfolding removes_one_def list_ex_iff by simp
qed

lemma count_one_removes_one:
  "old \<noteq> [] \<Longrightarrow> count_scan old s = 1 \<Longrightarrow> removes_one old s (replace_scan old [] s)"
proof (induction s)
  case Nil
  then show ?case by simp
next
  case (Cons c cs)
  show ?case
  proof (cases "prefix old (c # cs)")
    case True
    let ?rest = "drop (length old - 1) cs"
    have z: "count_scan old ?rest = 0"
      using Cons.prems(2) by (simp only: count_scan_hit[OF True]; simp)
    have "replace_scan old [] (c # cs) = replace_scan old [] ?rest"
      by (simp only: replace_scan_hit[OF True] append_Nil)
    then have t: "replace_scan old [] (c # cs) = ?rest"
      by (simp only: count_zero_replace[OF Cons.prems(1) z])
    have s: "c # cs = old @ ?rest"
      by (rule prefix_drop_tail[OF Cons.prems(1) True])
    have "c # cs = take 0 ?rest @ old @ drop 0 ?rest"
      using s by (simp only: take_0 drop_0 append_Nil)
    then have "\<exists>i\<le>length ?rest. c # cs = take i ?rest @ old @ drop i ?rest"
      by (intro exI[of _ 0] conjI) (rule le0)
    then show ?thesis
      by (simp only: removes_one_iff t)
  next
    case False
    let ?t = "replace_scan old [] cs"
    have "count_scan old cs = 1"
      using Cons.prems(2) by (simp only: count_scan_miss[OF False])
    from Cons.IH[OF Cons.prems(1) this] obtain i where
      i: "i \<le> length ?t" "cs = take i ?t @ old @ drop i ?t"
      unfolding removes_one_iff by blast
    have "c # cs = c # (take i ?t @ old @ drop i ?t)"
      using i(2) by (rule arg_cong)
    then have "c # cs = take (Suc i) (c # ?t) @ old @ drop (Suc i) (c # ?t)"
      by (simp only: take_Suc_Cons drop_Suc_Cons append_Cons)
    moreover have "Suc i \<le> length (c # ?t)"
      using i(1) by (simp only: length_Cons Suc_le_mono)
    ultimately have "\<exists>j\<le>length (c # ?t). c # cs = take j (c # ?t) @ old @ drop j (c # ?t)"
      by blast
    then show ?thesis
      by (simp only: removes_one_iff replace_scan_miss[OF False])
  qed
qed

lemma remove_marker_length:
  "length (str_replace ''_combined'' '''' name) + 9 * count_scan ''_combined'' name = length name"
proof -
  have ne: "''_combined'' \<noteq> []" by simp
  have r: "str_replace ''_combined'' '''' name = replace_scan ''_combined'' [] name"
    unfolding str_replace_def using ne by (simp only: if_False)
  have l: "length ''_combined'' = 9" by simp
  show ?thesis
    using replace_scan_length[OF ne, of name] by (simp only: r l)
qed

lemma remove_marker_one:
  assumes "count_scan ''_combined'' name = 1"
  shows "removes_one ''_combined'' name (str_replace ''_combined'' '''' name)"
proof -
  have ne: "''_combined'' \<noteq> []" by simp
  have r: "str_replace ''_combined'' '''' name = replace_scan ''_combined'' [] name"
    unfolding str_replace_def using ne by (simp only: if_False)
  show ?thesis
    using count_one_removes_one[OF ne assms] by (simp only: r)
qed

lemma remove_combined_suffix_unmarked:
  "\<not> str_contains ''_combined'' name \<Longrightarrow> remove_combined_suffix name w = (Inr name, w)"
  unfolding remove_combined_suffix_def by (simp only: if_False)

lemma remove_combined_suffix_marked:
  assumes "str_contains ''_combined'' name"
    and "remove_combined_suffix name w = (Inr new, w')"
  shows "new = str_replace ''_combined'' '''' name \<and> os_rename name new w = (Inr (), w')"
proof -
  let ?n = "str_replace ''_combined'' '''' name"
  obtain r w1 where rn: "os_rename name ?n w = (r, w1)" by (cases "os_rename name ?n w")
  have unf: "remove_combined_suffix name w =
      (case os_rename name ?n w of (Inl e, w') \<Rightarrow> (Inl e, w') | (Inr _, w') \<Rightarrow> (Inr ?n, w'))"
    unfolding remove_combined_suffix_def Let_def using assms(1) by (simp only: if_True)
  show ?thesis
  proof (cases r)
    case (Inl e)
    with unf rn assms(2) show ?thesis by simp
  next
    case (Inr u)
    with unf rn assms(2) show ?thesis by simp
  qed
qed

section \<open>The filename normalizer\<close>

text \<open>
  C3 (amended). On a name without the marker \<^verbatim>\<open>_combined\<close> the normalizer returns the name
  unchanged and leaves the world as it is, so it is idempotent there. On a name with the
  marker, when the rename succeeds, the file is renamed to the returned name, which is the
  name with every occurrence met by the left-to-right scan removed: its length is the old
  length minus nine per occurrence, there is at least one occurrence, and when there is
  exactly one, exactly that one is cut out.
\<close>

theorem remove_combined_suffix_normalizes:
  "(\<not> str_contains ''_combined'' name \<longrightarrow> remove_combined_suffix name w = (Inr name, w)) \<and>
   (str_contains ''_combined'' name \<longrightarrow>
      (\<forall>new w'. remove_combined_suffix name w = (Inr new, w') \<longrightarrow>
         os_rename name new w = (Inr (), w') \<and>
         new = str_replace ''_combined'' '''' name \<and>
         1 \<le> count_scan ''_combined'' name \<and>
         length new + 9 * count_scan ''_combined'' name = length name \<and>
         (count_scan ''_combined'' name = 1 \<longrightarrow> removes_one ''_combined'' name new)))"
proof (intro conjI impI allI)
  assume "\<not> str_contains ''_combined'' name"
  then show "remove_combined_suffix name w = (Inr name, w)"
    by (rule remove_combined_suffix_unmarked)
next
  fix new w'
  assume h: "str_contains ''_combined'' name" "remove_combined_suffix name w = (Inr new, w')"
  have ne: "''_combined'' \<noteq> []" by simp
  note m = remove_combined_suffix_marked[OF h]
  show "os_rename name new w = (Inr (), w')" using m by (rule conjunct2)
  show n: "new = str_replace ''_combined'' '''' name" using m by (rule conjunct1)
  show "1 \<le> count_scan ''_combined'' name"
    using contains_iff_count[OF ne, of name] h(1) by (rule iffD1)
  show "length new + 9 * count_scan ''_combined'' name = length name"
    unfolding n by (rule remove_marker_length)
  show "removes_one ''_combined'' name new" if "count_scan ''_combined'' name = 1"
    unfolding n using that by (rule remove_marker_one)
qed

theorem remove_combined_suffix_normalizes_witness:
  "\<not> str_contains ''_combined'' ''song.csv'' \<and>
   remove_combined_suffix ''song.csv'' example_world = (Inr ''song.csv'', example_world) \<and>
   str_contains ''_combined'' ''song_combined.csv'' \<and>
   fst (remove_combined_suffix ''song_combined.csv'' example_world) = Inr ''song.csv'' \<and>
   count_scan ''_combined'' ''song_combined.csv'' = 1 \<and>
   removes_one ''_combined'' ''song_combined.csv'' ''song.csv''"
proof -
  have a: "\<not> str_contains ''_combined'' ''song.csv''" by code_simp
  have b: "str_contains ''_combined'' ''song_combined.csv''" by code_simp
  have c: "fst (remove_combined_suffix ''song_combined.csv'' example_world) = Inr ''song.csv''"
    by code_simp
  have d: "count_scan ''_combined'' ''song_combined.csv'' = 1" by code_simp
  obtain w' where e:
    "remove_combined_suffix ''song_combined.csv'' example_world = (Inr ''song.csv'', w')"
    using c by (cases "remove_combined_suffix ''song_combined.csv'' example_world") simp
  have f: "remove_combined_suffix ''song.csv'' example_world = (Inr ''song.csv'', example_world)"
    using remove_combined_suffix_normalizes[of "''song.csv''" example_world] a by blast
  have g: "removes_one ''_combined'' ''song_combined.csv'' ''song.csv''"
    using remove_combined_suffix_normalizes[of "''song_combined.csv''" example_world] b d e
    by blast
  show ?thesis using a b c d f g by (intro conjI)
qed

text \<open>
  C3 as stated fails: of a name with two occurrences of the marker both are removed, so the
  result is not the name with exactly one occurrence cut out.
\<close>

theorem remove_combined_suffix_every_occurrence:
  "fst (remove_combined_suffix ''a_combined_combined.csv'' twice_marked_world) = Inr ''a.csv'' \<and>
   \<not> removes_one ''_combined'' ''a_combined_combined.csv'' ''a.csv''"
  by code_simp

subsection \<open>Pairs, lookups\<close>

lemma pair_fst: "fst x = a \<Longrightarrow> x = (a, snd x)"
  by (cases x) simp

lemma lookup_update: "map_of (AList.update k v al) p = (if p = k then Some v else map_of al p)"
  by (simp add: update_conv')

lemma lookup_delete: "map_of (AList.delete k al) p = (if p = k then None else map_of al p)"
  by (simp add: delete_conv')

lemma is_dir_nodes: "nodes w' = nodes w \<Longrightarrow> is_dir w' p = is_dir w p"
  by (simp add: is_dir_def lookup_def)

subsection \<open>Selections\<close>

lemma getitem_eq_frame:
  assumes "c \<in> set (columns (frames w df))"
  shows "getitem_eq df c v w =
           (Inr (next_ref w),
            w\<lparr>frames := (frames w)(next_ref w := select_rows (frames w df) c v),
              next_ref := Suc (next_ref w)\<rparr>)"
  using assms by (simp add: getitem_eq_def alloc_def)

lemma partition_rows_filter:
  assumes "''difficulty'' \<in> set (columns (frames w df))"
  shows "partition_rows df d w =
           filter (\<lambda>(i, r). cell_of (columns (frames w df)) r ''difficulty'' = Str d)
             (rows (frames w df))"
  unfolding partition_rows_def getitem_eq_frame[OF assms]
  by (simp add: select_rows_def)

section \<open>The partition by tier\<close>

lemma partition_rows_set:
  assumes "''difficulty'' \<in> set (columns (frames w df))"
  shows "set (partition_rows df d w) =
           {r \<in> set (rows (frames w df)).
              cell_of (columns (frames w df)) (snd r) ''difficulty'' = Str d}"
  unfolding partition_rows_filter[OF assms] by auto

lemma partitions_split_known_tiers:
  assumes "''difficulty'' \<in> set (columns (frames w df))"
  shows "(\<forall>d1 d2. d1 \<noteq> d2 \<longrightarrow>
            set (partition_rows df d1 w) \<inter> set (partition_rows df d2 w) = {}) \<and>
         (\<Union>d\<in>set difficulties. set (partition_rows df d w)) =
           {r \<in> set (rows (frames w df)).
              cell_of (columns (frames w df)) (snd r) ''difficulty'' \<in> Str ` set difficulties} \<and>
         ((\<Union>d\<in>set difficulties. set (partition_rows df d w)) = set (rows (frames w df)) \<longleftrightarrow>
            (\<forall>r\<in>set (rows (frames w df)).
               cell_of (columns (frames w df)) (snd r) ''difficulty'' \<in> Str ` set difficulties))"
proof -
  let ?R = "rows (frames w df)"
  let ?t = "\<lambda>r. cell_of (columns (frames w df)) (snd r) ''difficulty''"
  note p = partition_rows_set[OF assms]
  have disj: "\<forall>d1 d2. d1 \<noteq> d2 \<longrightarrow>
            set (partition_rows df d1 w) \<inter> set (partition_rows df d2 w) = {}"
    unfolding p by auto
  have un: "(\<Union>d\<in>set difficulties. set (partition_rows df d w)) =
           {r \<in> set ?R. ?t r \<in> Str ` set difficulties}"
    unfolding p by blast
  have tot: "({r \<in> set ?R. ?t r \<in> Str ` set difficulties} = set ?R) \<longleftrightarrow>
            (\<forall>r\<in>set ?R. ?t r \<in> Str ` set difficulties)"
    by blast
  show ?thesis using disj un tot by (simp only:)
qed

text \<open>
  C1. A Score Table is a loaded table with a \<^verbatim>\<open>difficulty\<close> column whose every row has one
  of the four tiers \<^verbatim>\<open>EZ\<close>, \<^verbatim>\<open>HD\<close>, \<^verbatim>\<open>IN\<close>, \<^verbatim>\<open>AT\<close>, as the input schema has it. For every such
  table the partitions of two different tiers share no row, the union of the four
  partitions is the row set of the table, and every row lies in the partition of exactly
  one of the four tiers.
\<close>

theorem partition_by_tier_total:
  assumes "''difficulty'' \<in> set (columns (frames w df))"
    and "\<forall>r\<in>set (rows (frames w df)).
           cell_of (columns (frames w df)) (snd r) ''difficulty'' \<in> Str ` set difficulties"
  shows "(\<forall>d1 d2. d1 \<noteq> d2 \<longrightarrow>
            set (partition_rows df d1 w) \<inter> set (partition_rows df d2 w) = {}) \<and>
         (\<Union>d\<in>set difficulties. set (partition_rows df d w)) = set (rows (frames w df)) \<and>
         (\<forall>r\<in>set (rows (frames w df)).
            \<exists>!d. d \<in> set difficulties \<and> r \<in> set (partition_rows df d w))"
proof -
  note t = partitions_split_known_tiers[OF assms(1)]
  note p = partition_rows_set[OF assms(1)]
  have disj: "\<forall>d1 d2. d1 \<noteq> d2 \<longrightarrow>
            set (partition_rows df d1 w) \<inter> set (partition_rows df d2 w) = {}"
    using t by (rule conjunct1)
  have un: "(\<Union>d\<in>set difficulties. set (partition_rows df d w)) = set (rows (frames w df))"
    using conjunct2[OF conjunct2[OF t]] assms(2) by (rule iffD2)
  have one: "\<exists>!d. d \<in> set difficulties \<and> r \<in> set (partition_rows df d w)"
    if r: "r \<in> set (rows (frames w df))" for r
  proof -
    from assms(2) r obtain d where d: "d \<in> set difficulties"
      "cell_of (columns (frames w df)) (snd r) ''difficulty'' = Str d"
      by auto
    have "r \<in> set (partition_rows df d w)" unfolding p using r d(2) by simp
    moreover have "d' = d" if "r \<in> set (partition_rows df d' w)" for d'
      using that d(2) unfolding p by simp
    ultimately show ?thesis using d(1) by blast
  qed
  show ?thesis using disj un one by blast
qed

theorem partition_by_tier_total_witness:
  "''difficulty'' \<in> set (columns (frames (snd (read_csv ''song_combined.csv'' example_world)) 0)) \<and>
   (\<Union>d\<in>set difficulties.
      set (partition_rows 0 d (snd (read_csv ''song_combined.csv'' example_world))))
     = set (rows (frames (snd (read_csv ''song_combined.csv'' example_world)) 0)) \<and>
   set (partition_rows 0 ''EZ'' (snd (read_csv ''song_combined.csv'' example_world))) \<inter>
   set (partition_rows 0 ''HD'' (snd (read_csv ''song_combined.csv'' example_world))) = {}"
proof -
  let ?w = "snd (read_csv ''song_combined.csv'' example_world)"
  have h: "''difficulty'' \<in> set (columns (frames ?w 0))" by code_simp
  have known: "\<forall>r\<in>set (rows (frames ?w 0)).
      cell_of (columns (frames ?w 0)) (snd r) ''difficulty'' \<in> Str ` set difficulties"
    by code_simp
  note t = partition_by_tier_total[OF h known]
  have ne: "''EZ'' \<noteq> ''HD''" by simp
  have "\<forall>d2. ''EZ'' \<noteq> d2 \<longrightarrow>
      set (partition_rows 0 ''EZ'' ?w) \<inter> set (partition_rows 0 d2 ?w) = {}"
    using conjunct1[OF t] by (rule spec)
  then have "''EZ'' \<noteq> ''HD'' \<longrightarrow>
      set (partition_rows 0 ''EZ'' ?w) \<inter> set (partition_rows 0 ''HD'' ?w) = {}"
    by (rule spec)
  then have d: "set (partition_rows 0 ''EZ'' ?w) \<inter> set (partition_rows 0 ''HD'' ?w) = {}"
    using ne by (rule mp)
  have u: "(\<Union>d\<in>set difficulties. set (partition_rows 0 d ?w)) = set (rows (frames ?w 0))"
    using conjunct2[OF t] by (rule conjunct1)
  show ?thesis using h u d by (intro conjI)
qed

text \<open>
  The tiers are not validated when a table is loaded. A row whose tier is none of the
  four is outside the schema, and it lies in no partition.
\<close>

lemma unknown_tier_in_no_partition:
  "fst (read_csv ''t.csv'' unknown_tier_world) = Inr 0 \<and>
   (1, [Str ''Airglow'', Str ''Legacy'', NonStr ''2''])
     \<in> set (rows (frames (snd (read_csv ''t.csv'' unknown_tier_world)) 0)) \<and>
   (1, [Str ''Airglow'', Str ''Legacy'', NonStr ''2''])
     \<notin> (\<Union>d\<in>set difficulties.
           set (partition_rows 0 d (snd (read_csv ''t.csv'' unknown_tier_world))))"
  by code_simp

section \<open>The run over the input files\<close>

subsection \<open>Errors inside the helper functions\<close>

lemma rename_error_passes:
  "str_contains ''_combined'' f \<and>
   os_rename f (str_replace ''_combined'' '''' f) v = (Inl e, w') \<longrightarrow>
   remove_combined_suffix f v = (Inl e, w')"
  by (clarsimp simp: remove_combined_suffix_def Let_def)

lemma folder_type_error: "create_song_folder (NonStr x) od v = (Inl TypeError, v)"
  by (simp add: create_song_folder_def)

lemma makedirs_error_passes:
  "os_makedirs (path_join od s) v = (Inl e, w') \<longrightarrow>
   create_song_folder (Str s) od v = (Inl e, w')"
  by (clarsimp simp: create_song_folder_def Let_def)

lemma export_error_passes:
  "df_drop df [''song_name''] v = (Inr d', v1) \<and>
   to_excel d' (path_join folder (fmt song @ ''.xlsx'')) v1 = (Inl e, w') \<longrightarrow>
   whole_song_export df song folder v = (Inl e, w')"
  by (clarsimp simp: whole_song_export_def Let_def)

lemma selection_error_passes:
  "getitem_eq df ''difficulty'' d v = (Inl e, w') \<longrightarrow>
   split_by_difficulty_body df song folder d v = (Inl e, w')"
  by (clarsimp simp: split_by_difficulty_body_def)

lemma csv_error_passes:
  "getitem_eq df ''difficulty'' d v = (Inr dd, v1) \<and> \<not> df_empty (frames v1 dd) \<and>
   df_drop dd [''song_name''] v1 = (Inr dd', v2) \<and>
   to_csv dd' (path_join folder (fmt song @ ''_'' @ d @ ''.csv'')) v2 = (Inl e, w') \<longrightarrow>
   split_by_difficulty_body df song folder d v = (Inl e, w')"
  by (clarsimp simp: split_by_difficulty_body_def Let_def)

lemma excel_error_passes:
  "getitem_eq df ''difficulty'' d v = (Inr dd, v1) \<and> \<not> df_empty (frames v1 dd) \<and>
   df_drop dd [''song_name''] v1 = (Inr dd', v2) \<and>
   to_csv dd' (path_join folder (fmt song @ ''_'' @ d @ ''.csv'')) v2 = (Inr (), v3) \<and>
   to_excel dd' (path_join folder (fmt song @ ''_'' @ d @ ''.xlsx'')) v3 = (Inl e, w') \<longrightarrow>
   split_by_difficulty_body df song folder d v = (Inl e, w')"
  by (clarsimp simp: split_by_difficulty_body_def Let_def)

lemma split_loop_stops:
  assumes "split_by_difficulty_loop df song folder tpre v = (Inr (), v1)"
    and "split_by_difficulty_body df song folder d v1 = (Inl e, w')"
  shows "split_by_difficulty_loop df song folder (tpre @ d # tpost) v = (Inl e, w')"
  using assms
proof (induction tpre arbitrary: v)
  case Nil
  then show ?case by simp
next
  case (Cons a tpre)
  obtain r u where b: "split_by_difficulty_body df song folder a v = (r, u)"
    by (cases "split_by_difficulty_body df song folder a v")
  show ?case
  proof (cases r)
    case (Inl e')
    with b Cons.prems(1) show ?thesis by simp
  next
    case (Inr x)
    with b Cons.prems(1) have "split_by_difficulty_loop df song folder tpre u = (Inr (), v1)"
      by simp
    from Cons.IH[OF this Cons.prems(2)] b Inr show ?thesis by simp
  qed
qed

lemma tier_error_passes:
  "difficulties = tpre @ d # tpost \<and>
   split_by_difficulty_loop df song folder tpre v = (Inr (), v1) \<and>
   split_by_difficulty_body df song folder d v1 = (Inl e, w') \<longrightarrow>
   split_by_difficulty df song folder v = (Inl e, w')"
proof (intro impI, elim conjE)
  assume a: "difficulties = tpre @ d # tpost"
    "split_by_difficulty_loop df song folder tpre v = (Inr (), v1)"
    "split_by_difficulty_body df song folder d v1 = (Inl e, w')"
  show "split_by_difficulty df song folder v = (Inl e, w')"
    unfolding split_by_difficulty_def a(1) by (rule split_loop_stops[OF a(2,3)])
qed

subsection \<open>Errors of the steps of the loop body\<close>

lemma body_passes_normalizer_error:
  "remove_combined_suffix f v = (Inl e, w') \<longrightarrow> main_body od f v = (Inl e, w')"
  by (clarsimp simp: main_body_def)

lemma body_passes_read_error:
  "remove_combined_suffix f v = (Inr p, v1) \<and> read_csv p v1 = (Inl e, w') \<longrightarrow>
   main_body od f v = (Inl e, w')"
  by (clarsimp simp: main_body_def)

lemma body_passes_song_error:
  "remove_combined_suffix f v = (Inr p, v1) \<and> read_csv p v1 = (Inr df, v2) \<and>
   column_first df ''song_name'' v2 = (Inl e, w') \<longrightarrow>
   main_body od f v = (Inl e, w')"
  by (clarsimp simp: main_body_def)

lemma body_passes_folder_error:
  "remove_combined_suffix f v = (Inr p, v1) \<and> read_csv p v1 = (Inr df, v2) \<and>
   column_first df ''song_name'' v2 = (Inr song, v3) \<and>
   create_song_folder song od v3 = (Inl e, w') \<longrightarrow>
   main_body od f v = (Inl e, w')"
  by (clarsimp simp: main_body_def)

lemma body_passes_move_error:
  "remove_combined_suffix f v = (Inr p, v1) \<and> read_csv p v1 = (Inr df, v2) \<and>
   column_first df ''song_name'' v2 = (Inr song, v3) \<and>
   create_song_folder song od v3 = (Inr folder, v4) \<and>
   shutil_move p (path_join folder f) v4 = (Inl e, w') \<longrightarrow>
   main_body od f v = (Inl e, w')"
  by (clarsimp simp: main_body_def)

lemma body_passes_export_error:
  "remove_combined_suffix f v = (Inr p, v1) \<and> read_csv p v1 = (Inr df, v2) \<and>
   column_first df ''song_name'' v2 = (Inr song, v3) \<and>
   create_song_folder song od v3 = (Inr folder, v4) \<and>
   shutil_move p (path_join folder f) v4 = (Inr (), v5) \<and>
   whole_song_export df song folder v5 = (Inl e, w') \<longrightarrow>
   main_body od f v = (Inl e, w')"
  by (clarsimp simp: main_body_def)

lemma body_passes_split_error:
  "remove_combined_suffix f v = (Inr p, v1) \<and> read_csv p v1 = (Inr df, v2) \<and>
   column_first df ''song_name'' v2 = (Inr song, v3) \<and>
   create_song_folder song od v3 = (Inr folder, v4) \<and>
   shutil_move p (path_join folder f) v4 = (Inr (), v5) \<and>
   whole_song_export df song folder v5 = (Inr (), v6) \<and>
   split_by_difficulty df song folder v6 = (Inl e, w') \<longrightarrow>
   main_body od f v = (Inl e, w')"
  by (clarsimp simp: main_body_def)

subsection \<open>Errors in the run\<close>

lemma main_loop_stops:
  assumes "main_loop out pre w = (Inr (), w1)" and "main_body out f w1 = (Inl e, w2)"
  shows "main_loop out (pre @ f # post) w = (Inl e, w2)"
  using assms
proof (induction pre arbitrary: w)
  case Nil
  then show ?case by simp
next
  case (Cons g pre)
  obtain r w' where b: "main_body out g w = (r, w')" by (cases "main_body out g w")
  show ?case
  proof (cases r)
    case (Inl e')
    with b Cons.prems(1) show ?thesis by simp
  next
    case (Inr u)
    with b Cons.prems(1) have "main_loop out pre w' = (Inr (), w1)" by simp
    from Cons.IH[OF this Cons.prems(2)] b Inr show ?thesis by simp
  qed
qed

lemma file_error_passes:
  "main_loop od pre v = (Inr (), v1) \<and> main_body od f v1 = (Inl e, w') \<longrightarrow>
   main_loop od (pre @ f # post) v = (Inl e, w')"
  by (clarsimp simp: main_loop_stops)

lemma main_passes_file_error:
  "os_makedirs (path_join (cwd w) ''generated_files'') w = (Inr (), w0) \<and>
   os_listdir (cwd w) w0 = (Inr listing, w1) \<and>
   filter (suffix ''.csv'') listing = pre @ f # post \<and>
   main_loop (path_join (cwd w) ''generated_files'') pre w1 = (Inr (), w2) \<and>
   main_body (path_join (cwd w) ''generated_files'') f w2 = (Inl e, w') \<longrightarrow>
   main w = (Inl e, w')"
proof (intro impI, elim conjE)
  assume a: "os_makedirs (path_join (cwd w) ''generated_files'') w = (Inr (), w0)"
    "os_listdir (cwd w) w0 = (Inr listing, w1)"
    "filter (suffix ''.csv'') listing = pre @ f # post"
    "main_loop (path_join (cwd w) ''generated_files'') pre w1 = (Inr (), w2)"
    "main_body (path_join (cwd w) ''generated_files'') f w2 = (Inl e, w')"
  have l: "main_loop (path_join (cwd w) ''generated_files'') (pre @ f # post) w1 = (Inl e, w')"
    by (rule main_loop_stops[OF a(4,5)])
  show "main w = (Inl e, w')"
    by (simp add: main_def Let_def a(1,2,3) l)
qed

lemma main_passes_makedirs_error:
  "os_makedirs (path_join (cwd w) ''generated_files'') w = (Inl e, w') \<longrightarrow> main w = (Inl e, w')"
  by (clarsimp simp: main_def Let_def)

lemma main_passes_listdir_error:
  "os_makedirs (path_join (cwd w) ''generated_files'') w = (Inr (), w0) \<and>
   os_listdir (cwd w) w0 = (Inl e, w') \<longrightarrow> main w = (Inl e, w')"
  by (clarsimp simp: main_def Let_def)

text \<open>
  C7. Nothing catches an error and nothing is rolled back: an error is passed on
  together with the world in which it arose. This holds at every level.
  \<^item> The run: an error of creating the output directory, of listing the working directory
    or of the body of the file loop, for any file of the discovered list after any files
    processed before it, is the result of \<^verbatim>\<open>main\<close>, and the loop stops there whatever files
    follow.
  \<^item> The body of the file loop: an error of the normalizer, of the loader, of reading the
    song identifier (missing column or empty table), of creating the song folder, of
    moving the input file, of the whole-song export or of the partitioner is the result
    of the body.
  \<^item> The helper functions: a failed rename is the error of the normalizer; a song
    identifier that is not a string and a failed \<^verbatim>\<open>makedirs\<close> are the error of
    \<^verbatim>\<open>create_song_folder\<close>; a failed write is the error of the whole-song export; a missing
    \<^verbatim>\<open>difficulty\<close> column and a failed write of either tier file are the error of the tier's
    step, and an error of any tier's step is the error of the partitioner.
\<close>

theorem error_aborts_run:
  "(os_makedirs (path_join (cwd w) ''generated_files'') w = (Inr (), w0) \<and>
    os_listdir (cwd w) w0 = (Inr listing, w1) \<and>
    filter (suffix ''.csv'') listing = pre @ f # post \<and>
    main_loop (path_join (cwd w) ''generated_files'') pre w1 = (Inr (), w2) \<and>
    main_body (path_join (cwd w) ''generated_files'') f w2 = (Inl e, w') \<longrightarrow>
    main w = (Inl e, w')) \<and>
   (remove_combined_suffix f v = (Inr p, v1) \<and> read_csv p v1 = (Inr df, v2) \<and>
    column_first df ''song_name'' v2 = (Inr song, v3) \<and>
    create_song_folder song od v3 = (Inr folder, v4) \<and>
    shutil_move p (path_join folder f) v4 = (Inr (), v5) \<and>
    whole_song_export df song folder v5 = (Inr (), v6) \<and>
    split_by_difficulty df song folder v6 = (Inl e, w') \<longrightarrow>
    main_body od f v = (Inl e, w')) \<and>
   (difficulties = tpre @ d # tpost \<and>
    split_by_difficulty_loop df song folder tpre v = (Inr (), v1) \<and>
    split_by_difficulty_body df song folder d v1 = (Inl e, w') \<longrightarrow>
    split_by_difficulty df song folder v = (Inl e, w')) \<and>
   (getitem_eq df ''difficulty'' d v = (Inl e, w') \<longrightarrow>
    split_by_difficulty_body df song folder d v = (Inl e, w')) \<and>
   (os_makedirs (path_join (cwd w) ''generated_files'') w = (Inl e, w') \<longrightarrow>
    main w = (Inl e, w')) \<and>
   (os_makedirs (path_join (cwd w) ''generated_files'') w = (Inr (), w0) \<and>
    os_listdir (cwd w) w0 = (Inl e, w') \<longrightarrow> main w = (Inl e, w')) \<and>
   (main_loop od pre v = (Inr (), v1) \<and> main_body od f v1 = (Inl e, w') \<longrightarrow>
    main_loop od (pre @ f # post) v = (Inl e, w')) \<and>
   (remove_combined_suffix f v = (Inl e, w') \<longrightarrow> main_body od f v = (Inl e, w')) \<and>
   (remove_combined_suffix f v = (Inr p, v1) \<and> read_csv p v1 = (Inl e, w') \<longrightarrow>
    main_body od f v = (Inl e, w')) \<and>
   (remove_combined_suffix f v = (Inr p, v1) \<and> read_csv p v1 = (Inr df, v2) \<and>
    column_first df ''song_name'' v2 = (Inl e, w') \<longrightarrow>
    main_body od f v = (Inl e, w')) \<and>
   (remove_combined_suffix f v = (Inr p, v1) \<and> read_csv p v1 = (Inr df, v2) \<and>
    column_first df ''song_name'' v2 = (Inr song, v3) \<and>
    create_song_folder song od v3 = (Inl e, w') \<longrightarrow>
    main_body od f v = (Inl e, w')) \<and>
   (remove_combined_suffix f v = (Inr p, v1) \<and> read_csv p v1 = (Inr df, v2) \<and>
    column_first df ''song_name'' v2 = (Inr song, v3) \<and>
    create_song_folder song od v3 = (Inr folder, v4) \<and>
    shutil_move p (path_join folder f) v4 = (Inl e, w') \<longrightarrow>
    main_body od f v = (Inl e, w')) \<and>
   (remove_combined_suffix f v = (Inr p, v1) \<and> read_csv p v1 = (Inr df, v2) \<and>
    column_first df ''song_name'' v2 = (Inr song, v3) \<and>
    create_song_folder song od v3 = (Inr folder, v4) \<and>
    shutil_move p (path_join folder f) v4 = (Inr (), v5) \<and>
    whole_song_export df song folder v5 = (Inl e, w') \<longrightarrow>
    main_body od f v = (Inl e, w')) \<and>
   (str_contains ''_combined'' f \<and>
    os_rename f (str_replace ''_combined'' '''' f) v = (Inl e, w') \<longrightarrow>
    remove_combined_suffix f v = (Inl e, w')) \<and>
   create_song_folder (NonStr x) od v = (Inl TypeError, v) \<and>
   (os_makedirs (path_join od s) v = (Inl e, w') \<longrightarrow>
    create_song_folder (Str s) od v = (Inl e, w')) \<and>
   (df_drop df [''song_name''] v = (Inr d', v1) \<and>
    to_excel d' (path_join folder (fmt song @ ''.xlsx'')) v1 = (Inl e, w') \<longrightarrow>
    whole_song_export df song folder v = (Inl e, w')) \<and>
   (getitem_eq df ''difficulty'' d v = (Inr dd, v1) \<and> \<not> df_empty (frames v1 dd) \<and>
    df_drop dd [''song_name''] v1 = (Inr dd', v2) \<and>
    to_csv dd' (path_join folder (fmt song @ ''_'' @ d @ ''.csv'')) v2 = (Inl e, w') \<longrightarrow>
    split_by_difficulty_body df song folder d v = (Inl e, w')) \<and>
   (getitem_eq df ''difficulty'' d v = (Inr dd, v1) \<and> \<not> df_empty (frames v1 dd) \<and>
    df_drop dd [''song_name''] v1 = (Inr dd', v2) \<and>
    to_csv dd' (path_join folder (fmt song @ ''_'' @ d @ ''.csv'')) v2 = (Inr (), v3) \<and>
    to_excel dd' (path_join folder (fmt song @ ''_'' @ d @ ''.xlsx'')) v3 = (Inl e, w') \<longrightarrow>
    split_by_difficulty_body df song folder d v = (Inl e, w'))"
  apply (intro conjI)
                    apply (rule main_passes_file_error)
                   apply (rule body_passes_split_error)
                  apply (rule tier_error_passes)
                 apply (rule selection_error_passes)
                apply (rule main_passes_makedirs_error)
               apply (rule main_passes_listdir_error)
              apply (rule file_error_passes)
             apply (rule body_passes_normalizer_error)
            apply (rule body_passes_read_error)
           apply (rule body_passes_song_error)
          apply (rule body_passes_folder_error)
         apply (rule body_passes_move_error)
        apply (rule body_passes_export_error)
       apply (rule rename_error_passes)
      apply (rule folder_type_error)
     apply (rule makedirs_error_passes)
    apply (rule export_error_passes)
   apply (rule csv_error_passes)
  apply (rule excel_error_passes)
  done

text \<open>
  Runs that die, one for each kind of error.
  \<^item> A schema error: the first file has no \<^verbatim>\<open>difficulty\<close> column. The run ends with the
    \<^verbatim>\<open>KeyError\<close> of the first tier's selection, after the input file was moved and the
    whole-song export written, which both stay, and the second file is left where it was.
  \<^item> A parse error: the second of three files cannot be parsed. The outputs of the first
    file stay and the third file is left where it was.
  \<^item> An empty table: the \<^verbatim>\<open>IndexError\<close> of reading the song identifier.
  \<^item> Errors of the file system: a file where the output directory or the song folder goes,
    a directory that holds the input file's name where the input file goes, a directory
    where the whole-song spreadsheet or a tier's file goes (the tier's delimited file stays
    when its spreadsheet fails), and a failed rename in the normalizer.
\<close>

theorem error_aborts_run_witness:
  "fst (main schema_error_world) = Inl KeyError \<and>
   lookup (snd (main schema_error_world)) ''/w/c.csv'' = Some (File example_table) \<and>
   lookup (snd (main schema_error_world)) ''/w/generated_files/S/S.xlsx'' \<noteq> None \<and>
   lookup (snd (main schema_error_world)) ''/w/generated_files/S/a.csv'' \<noteq> None \<and>
   fst (main abort_world) = Inl ParserError \<and>
   lookup (snd (main abort_world)) ''/w/c.csv'' = Some (File example_table) \<and>
   lookup (snd (main abort_world)) ''/w/generated_files/Airglow/Airglow_EZ.csv'' \<noteq> None \<and>
   fst (main_body ''/w/generated_files'' ''e_combined.csv'' header_only_world) = Inl IndexError \<and>
   fst (main_body ''/w/generated_files'' ''a.csv'' folder_blocked_world) = Inl FileExistsError \<and>
   fst (main_body ''/w/generated_files'' ''a.csv'' target_taken_world) = Inl ShutilError \<and>
   fst (main_body ''/w/generated_files'' ''a.csv'' sheet_blocked_world) = Inl IsADirectoryError \<and>
   fst (split_by_difficulty_body 0 (Str ''S'') ''/w/generated_files/S'' ''EZ''
          (snd (read_csv ''a.csv'' tier_csv_blocked_world))) = Inl IsADirectoryError \<and>
   fst (split_by_difficulty_body 0 (Str ''S'') ''/w/generated_files/S'' ''EZ''
          (snd (read_csv ''a.csv'' tier_sheet_blocked_world))) = Inl IsADirectoryError \<and>
   lookup (snd (split_by_difficulty_body 0 (Str ''S'') ''/w/generated_files/S'' ''EZ''
                  (snd (read_csv ''a.csv'' tier_sheet_blocked_world))))
     ''/w/generated_files/S/S_EZ.csv'' \<noteq> None \<and>
   fst (main output_blocked_world) = Inl FileExistsError \<and>
   fst (main_body ''/w/generated_files'' ''x_combined.csv'' marked_directory_world)
     = Inl IsADirectoryError"
proof -
  note r1 = error_aborts_run[THEN conjunct2]
  note r2 = r1[THEN conjunct2]
  note r3 = r2[THEN conjunct2]
  note r4 = r3[THEN conjunct2]
  note r5 = r4[THEN conjunct2]
  note r6 = r5[THEN conjunct2]
  note r7 = r6[THEN conjunct2]
  note r8 = r7[THEN conjunct2]
  note r9 = r8[THEN conjunct2]
  note r10 = r9[THEN conjunct2]
  note r11 = r10[THEN conjunct2]
  note r12 = r11[THEN conjunct2]
  note r13 = r12[THEN conjunct2]
  note r14 = r13[THEN conjunct2]
  note r15 = r14[THEN conjunct2]
  note r16 = r15[THEN conjunct2]
  note r17 = r16[THEN conjunct2]
  note r18 = r17[THEN conjunct2]
  note main_file = error_aborts_run[THEN conjunct1, THEN mp]
  note body_split = r1[THEN conjunct1, THEN mp]
  note split_tier = r2[THEN conjunct1, THEN mp]
  note tier_select = r3[THEN conjunct1, THEN mp]
  note main_makedirs = r4[THEN conjunct1, THEN mp]
  note loop_file = r6[THEN conjunct1, THEN mp]
  note body_normalizer = r7[THEN conjunct1, THEN mp]
  note body_read = r8[THEN conjunct1, THEN mp]
  note body_song = r9[THEN conjunct1, THEN mp]
  note body_folder = r10[THEN conjunct1, THEN mp]
  note body_move = r11[THEN conjunct1, THEN mp]
  note body_export = r12[THEN conjunct1, THEN mp]
  note normalizer_rename = r13[THEN conjunct1, THEN mp]
  note folder_makedirs = r15[THEN conjunct1, THEN mp]
  note export_excel = r16[THEN conjunct1, THEN mp]
  note tier_csv = r17[THEN conjunct1, THEN mp]
  note tier_excel = r18[THEN mp]

  txt \<open>no \<^verbatim>\<open>difficulty\<close> column\<close>
  let ?W = "schema_error_world"
  let ?out = "path_join (cwd ?W) ''generated_files''"
  let ?w0 = "snd (os_makedirs ?out ?W)"
  let ?l = "[''a.csv'', ''c.csv'', ''generated_files'']"
  let ?w1 = "snd (os_listdir (cwd ?W) ?w0)"
  let ?v1 = "snd (remove_combined_suffix ''a.csv'' ?w1)"
  let ?v2 = "snd (read_csv ''a.csv'' ?v1)"
  let ?v3 = "snd (column_first 0 ''song_name'' ?v2)"
  let ?v4 = "snd (create_song_folder (Str ''S'') ?out ?v3)"
  let ?F = "''/w/generated_files/S''"
  let ?v5 = "snd (shutil_move ''a.csv'' (path_join ?F ''a.csv'') ?v4)"
  let ?v6 = "snd (whole_song_export 0 (Str ''S'') ?F ?v5)"
  let ?w' = "snd (getitem_eq 0 ''difficulty'' ''EZ'' ?v6)"
  have "fst (os_makedirs ?out ?W) = Inr ()" by code_simp
  then have h1: "os_makedirs ?out ?W = (Inr (), ?w0)" by (rule pair_fst)
  have "fst (os_listdir (cwd ?W) ?w0) = Inr ?l" by code_simp
  then have h2: "os_listdir (cwd ?W) ?w0 = (Inr ?l, ?w1)" by (rule pair_fst)
  have h3: "filter (suffix ''.csv'') ?l = [] @ ''a.csv'' # [''c.csv'']" by code_simp
  have h4: "main_loop ?out [] ?w1 = (Inr (), ?w1)" by simp
  have "fst (remove_combined_suffix ''a.csv'' ?w1) = Inr ''a.csv''" by code_simp
  then have b1: "remove_combined_suffix ''a.csv'' ?w1 = (Inr ''a.csv'', ?v1)" by (rule pair_fst)
  have "fst (read_csv ''a.csv'' ?v1) = Inr 0" by code_simp
  then have b2: "read_csv ''a.csv'' ?v1 = (Inr 0, ?v2)" by (rule pair_fst)
  have "fst (column_first 0 ''song_name'' ?v2) = Inr (Str ''S'')" by code_simp
  then have b3: "column_first 0 ''song_name'' ?v2 = (Inr (Str ''S''), ?v3)" by (rule pair_fst)
  have "fst (create_song_folder (Str ''S'') ?out ?v3) = Inr ?F" by code_simp
  then have b4: "create_song_folder (Str ''S'') ?out ?v3 = (Inr ?F, ?v4)" by (rule pair_fst)
  have "fst (shutil_move ''a.csv'' (path_join ?F ''a.csv'') ?v4) = Inr ()" by code_simp
  then have b5: "shutil_move ''a.csv'' (path_join ?F ''a.csv'') ?v4 = (Inr (), ?v5)"
    by (rule pair_fst)
  have "fst (whole_song_export 0 (Str ''S'') ?F ?v5) = Inr ()" by code_simp
  then have b6: "whole_song_export 0 (Str ''S'') ?F ?v5 = (Inr (), ?v6)" by (rule pair_fst)
  have "fst (getitem_eq 0 ''difficulty'' ''EZ'' ?v6) = Inl KeyError" by code_simp
  then have g: "getitem_eq 0 ''difficulty'' ''EZ'' ?v6 = (Inl KeyError, ?w')" by (rule pair_fst)
  have s4: "split_by_difficulty_body 0 (Str ''S'') ?F ''EZ'' ?v6 = (Inl KeyError, ?w')"
    by (rule tier_select[OF g])
  have d0: "difficulties = [] @ ''EZ'' # [''HD'', ''IN'', ''AT'']"
    by (simp add: difficulties_def)
  have l0: "split_by_difficulty_loop 0 (Str ''S'') ?F [] ?v6 = (Inr (), ?v6)" by simp
  have s3: "split_by_difficulty 0 (Str ''S'') ?F ?v6 = (Inl KeyError, ?w')"
    by (rule split_tier[OF conjI[OF d0 conjI[OF l0 s4]]])
  have s2: "main_body ?out ''a.csv'' ?w1 = (Inl KeyError, ?w')"
    by (rule body_split[OF conjI[OF b1 conjI[OF b2 conjI[OF b3 conjI[OF b4 conjI[OF b5
          conjI[OF b6 s3]]]]]]])
  have s1: "main ?W = (Inl KeyError, ?w')"
    by (rule main_file[OF conjI[OF h1 conjI[OF h2 conjI[OF h3 conjI[OF h4 s2]]]]])
  have a1: "fst (main ?W) = Inl KeyError" unfolding s1 by (rule fst_conv)
  have a2: "lookup (snd (main ?W)) ''/w/c.csv'' = Some (File example_table)" by code_simp
  have a3: "lookup (snd (main ?W)) ''/w/generated_files/S/S.xlsx'' \<noteq> None" by code_simp
  have a4: "lookup (snd (main ?W)) ''/w/generated_files/S/a.csv'' \<noteq> None" by code_simp

  txt \<open>the second of three files cannot be parsed\<close>
  let ?A = "abort_world"
  let ?outA = "path_join (cwd ?A) ''generated_files''"
  let ?x0 = "snd (os_makedirs ?outA ?A)"
  let ?lA = "[''a.csv'', ''b.csv'', ''c.csv'', ''generated_files'']"
  let ?x1 = "snd (os_listdir (cwd ?A) ?x0)"
  let ?x2 = "snd (main_loop ?outA [''a.csv''] ?x1)"
  let ?y1 = "snd (remove_combined_suffix ''b.csv'' ?x2)"
  let ?y2 = "snd (read_csv ''b.csv'' ?y1)"
  have "fst (os_makedirs ?outA ?A) = Inr ()" by code_simp
  then have k1: "os_makedirs ?outA ?A = (Inr (), ?x0)" by (rule pair_fst)
  have "fst (os_listdir (cwd ?A) ?x0) = Inr ?lA" by code_simp
  then have k2: "os_listdir (cwd ?A) ?x0 = (Inr ?lA, ?x1)" by (rule pair_fst)
  have k3: "filter (suffix ''.csv'') ?lA = [''a.csv''] @ ''b.csv'' # [''c.csv'']" by code_simp
  have "fst (main_loop ?outA [''a.csv''] ?x1) = Inr ()" by code_simp
  then have k4: "main_loop ?outA [''a.csv''] ?x1 = (Inr (), ?x2)" by (rule pair_fst)
  have "fst (remove_combined_suffix ''b.csv'' ?x2) = Inr ''b.csv''" by code_simp
  then have n1: "remove_combined_suffix ''b.csv'' ?x2 = (Inr ''b.csv'', ?y1)" by (rule pair_fst)
  have "fst (read_csv ''b.csv'' ?y1) = Inl ParserError" by code_simp
  then have n2: "read_csv ''b.csv'' ?y1 = (Inl ParserError, ?y2)" by (rule pair_fst)
  have k5: "main_body ?outA ''b.csv'' ?x2 = (Inl ParserError, ?y2)"
    by (rule body_read[OF conjI[OF n1 n2]])
  have k6: "main_loop ?outA ([''a.csv''] @ ''b.csv'' # [''c.csv'']) ?x1 = (Inl ParserError, ?y2)"
    by (rule loop_file[OF conjI[OF k4 k5]])
  have t1: "main ?A = (Inl ParserError, ?y2)"
    by (rule main_file[OF conjI[OF k1 conjI[OF k2 conjI[OF k3 conjI[OF k4 k5]]]]])
  have a5: "fst (main ?A) = Inl ParserError" unfolding t1 by (rule fst_conv)
  have a6: "lookup (snd (main ?A)) ''/w/c.csv'' = Some (File example_table)" by code_simp
  have a7: "lookup (snd (main ?A)) ''/w/generated_files/Airglow/Airglow_EZ.csv'' \<noteq> None"
    by code_simp

  txt \<open>a table without rows\<close>
  let ?od = "''/w/generated_files''"
  let ?H = "header_only_world"
  let ?h1 = "snd (remove_combined_suffix ''e_combined.csv'' ?H)"
  let ?h2 = "snd (read_csv ''e.csv'' ?h1)"
  let ?h3 = "snd (column_first 0 ''song_name'' ?h2)"
  have "fst (remove_combined_suffix ''e_combined.csv'' ?H) = Inr ''e.csv''" by code_simp
  then have e1: "remove_combined_suffix ''e_combined.csv'' ?H = (Inr ''e.csv'', ?h1)"
    by (rule pair_fst)
  have "fst (read_csv ''e.csv'' ?h1) = Inr 0" by code_simp
  then have e2: "read_csv ''e.csv'' ?h1 = (Inr 0, ?h2)" by (rule pair_fst)
  have "fst (column_first 0 ''song_name'' ?h2) = Inl IndexError" by code_simp
  then have e3: "column_first 0 ''song_name'' ?h2 = (Inl IndexError, ?h3)" by (rule pair_fst)
  have e4: "main_body ?od ''e_combined.csv'' ?H = (Inl IndexError, ?h3)"
    by (rule body_song[OF conjI[OF e1 conjI[OF e2 e3]]])
  have a8: "fst (main_body ?od ''e_combined.csv'' ?H) = Inl IndexError"
    unfolding e4 by (rule fst_conv)

  txt \<open>a file where the song folder goes\<close>
  let ?B = "folder_blocked_world"
  let ?f1 = "snd (remove_combined_suffix ''a.csv'' ?B)"
  let ?f2 = "snd (read_csv ''a.csv'' ?f1)"
  let ?f3 = "snd (column_first 0 ''song_name'' ?f2)"
  let ?f4 = "snd (os_makedirs (path_join ?od ''S'') ?f3)"
  have "fst (remove_combined_suffix ''a.csv'' ?B) = Inr ''a.csv''" by code_simp
  then have f1: "remove_combined_suffix ''a.csv'' ?B = (Inr ''a.csv'', ?f1)" by (rule pair_fst)
  have "fst (read_csv ''a.csv'' ?f1) = Inr 0" by code_simp
  then have f2: "read_csv ''a.csv'' ?f1 = (Inr 0, ?f2)" by (rule pair_fst)
  have "fst (column_first 0 ''song_name'' ?f2) = Inr (Str ''S'')" by code_simp
  then have f3: "column_first 0 ''song_name'' ?f2 = (Inr (Str ''S''), ?f3)" by (rule pair_fst)
  have "fst (os_makedirs (path_join ?od ''S'') ?f3) = Inl FileExistsError" by code_simp
  then have f4: "os_makedirs (path_join ?od ''S'') ?f3 = (Inl FileExistsError, ?f4)"
    by (rule pair_fst)
  have f5: "create_song_folder (Str ''S'') ?od ?f3 = (Inl FileExistsError, ?f4)"
    by (rule folder_makedirs[OF f4])
  have f6: "main_body ?od ''a.csv'' ?B = (Inl FileExistsError, ?f4)"
    by (rule body_folder[OF conjI[OF f1 conjI[OF f2 conjI[OF f3 f5]]]])
  have a9: "fst (main_body ?od ''a.csv'' ?B) = Inl FileExistsError"
    unfolding f6 by (rule fst_conv)

  txt \<open>a directory that holds the input file's name where the input file goes\<close>
  let ?T = "target_taken_world"
  let ?t1 = "snd (remove_combined_suffix ''a.csv'' ?T)"
  let ?t2 = "snd (read_csv ''a.csv'' ?t1)"
  let ?t3 = "snd (column_first 0 ''song_name'' ?t2)"
  let ?t4 = "snd (create_song_folder (Str ''S'') ?od ?t3)"
  let ?t5 = "snd (shutil_move ''a.csv'' (path_join ?F ''a.csv'') ?t4)"
  have "fst (remove_combined_suffix ''a.csv'' ?T) = Inr ''a.csv''" by code_simp
  then have m1: "remove_combined_suffix ''a.csv'' ?T = (Inr ''a.csv'', ?t1)" by (rule pair_fst)
  have "fst (read_csv ''a.csv'' ?t1) = Inr 0" by code_simp
  then have m2: "read_csv ''a.csv'' ?t1 = (Inr 0, ?t2)" by (rule pair_fst)
  have "fst (column_first 0 ''song_name'' ?t2) = Inr (Str ''S'')" by code_simp
  then have m3: "column_first 0 ''song_name'' ?t2 = (Inr (Str ''S''), ?t3)" by (rule pair_fst)
  have "fst (create_song_folder (Str ''S'') ?od ?t3) = Inr ?F" by code_simp
  then have m4: "create_song_folder (Str ''S'') ?od ?t3 = (Inr ?F, ?t4)" by (rule pair_fst)
  have "fst (shutil_move ''a.csv'' (path_join ?F ''a.csv'') ?t4) = Inl ShutilError" by code_simp
  then have m5: "shutil_move ''a.csv'' (path_join ?F ''a.csv'') ?t4 = (Inl ShutilError, ?t5)"
    by (rule pair_fst)
  have m6: "main_body ?od ''a.csv'' ?T = (Inl ShutilError, ?t5)"
    by (rule body_move[OF conjI[OF m1 conjI[OF m2 conjI[OF m3 conjI[OF m4 m5]]]]])
  have a10: "fst (main_body ?od ''a.csv'' ?T) = Inl ShutilError"
    unfolding m6 by (rule fst_conv)

  txt \<open>a directory where the whole-song spreadsheet goes\<close>
  let ?S = "sheet_blocked_world"
  let ?s1 = "snd (remove_combined_suffix ''a.csv'' ?S)"
  let ?s2 = "snd (read_csv ''a.csv'' ?s1)"
  let ?s3 = "snd (column_first 0 ''song_name'' ?s2)"
  let ?s4 = "snd (create_song_folder (Str ''S'') ?od ?s3)"
  let ?s5 = "snd (shutil_move ''a.csv'' (path_join ?F ''a.csv'') ?s4)"
  let ?s6 = "snd (df_drop 0 [''song_name''] ?s5)"
  let ?s7 = "snd (to_excel 1 (path_join ?F (fmt (Str ''S'') @ ''.xlsx'')) ?s6)"
  have "fst (remove_combined_suffix ''a.csv'' ?S) = Inr ''a.csv''" by code_simp
  then have p1: "remove_combined_suffix ''a.csv'' ?S = (Inr ''a.csv'', ?s1)" by (rule pair_fst)
  have "fst (read_csv ''a.csv'' ?s1) = Inr 0" by code_simp
  then have p2: "read_csv ''a.csv'' ?s1 = (Inr 0, ?s2)" by (rule pair_fst)
  have "fst (column_first 0 ''song_name'' ?s2) = Inr (Str ''S'')" by code_simp
  then have p3: "column_first 0 ''song_name'' ?s2 = (Inr (Str ''S''), ?s3)" by (rule pair_fst)
  have "fst (create_song_folder (Str ''S'') ?od ?s3) = Inr ?F" by code_simp
  then have p4: "create_song_folder (Str ''S'') ?od ?s3 = (Inr ?F, ?s4)" by (rule pair_fst)
  have "fst (shutil_move ''a.csv'' (path_join ?F ''a.csv'') ?s4) = Inr ()" by code_simp
  then have p5: "shutil_move ''a.csv'' (path_join ?F ''a.csv'') ?s4 = (Inr (), ?s5)"
    by (rule pair_fst)
  have "fst (df_drop 0 [''song_name''] ?s5) = Inr 1" by code_simp
  then have p6: "df_drop 0 [''song_name''] ?s5 = (Inr 1, ?s6)" by (rule pair_fst)
  have "fst (to_excel 1 (path_join ?F (fmt (Str ''S'') @ ''.xlsx'')) ?s6) = Inl IsADirectoryError"
    by code_simp
  then have p7: "to_excel 1 (path_join ?F (fmt (Str ''S'') @ ''.xlsx'')) ?s6
                   = (Inl IsADirectoryError, ?s7)"
    by (rule pair_fst)
  have p8: "whole_song_export 0 (Str ''S'') ?F ?s5 = (Inl IsADirectoryError, ?s7)"
    by (rule export_excel[OF conjI[OF p6 p7]])
  have p9: "main_body ?od ''a.csv'' ?S = (Inl IsADirectoryError, ?s7)"
    by (rule body_export[OF conjI[OF p1 conjI[OF p2 conjI[OF p3 conjI[OF p4 conjI[OF p5 p8]]]]]])
  have a11: "fst (main_body ?od ''a.csv'' ?S) = Inl IsADirectoryError"
    unfolding p9 by (rule fst_conv)

  txt \<open>a directory where the first tier's delimited file goes\<close>
  let ?C = "snd (read_csv ''a.csv'' tier_csv_blocked_world)"
  let ?c1 = "snd (getitem_eq 0 ''difficulty'' ''EZ'' ?C)"
  let ?c2 = "snd (df_drop 1 [''song_name''] ?c1)"
  let ?c3 = "snd (to_csv 2 (path_join ?F (fmt (Str ''S'') @ ''_'' @ ''EZ'' @ ''.csv'')) ?c2)"
  have "fst (getitem_eq 0 ''difficulty'' ''EZ'' ?C) = Inr 1" by code_simp
  then have q1: "getitem_eq 0 ''difficulty'' ''EZ'' ?C = (Inr 1, ?c1)" by (rule pair_fst)
  have q2: "\<not> df_empty (frames ?c1 1)" by code_simp
  have "fst (df_drop 1 [''song_name''] ?c1) = Inr 2" by code_simp
  then have q3: "df_drop 1 [''song_name''] ?c1 = (Inr 2, ?c2)" by (rule pair_fst)
  have "fst (to_csv 2 (path_join ?F (fmt (Str ''S'') @ ''_'' @ ''EZ'' @ ''.csv'')) ?c2)
          = Inl IsADirectoryError" by code_simp
  then have q4: "to_csv 2 (path_join ?F (fmt (Str ''S'') @ ''_'' @ ''EZ'' @ ''.csv'')) ?c2
                   = (Inl IsADirectoryError, ?c3)"
    by (rule pair_fst)
  have q5: "split_by_difficulty_body 0 (Str ''S'') ?F ''EZ'' ?C = (Inl IsADirectoryError, ?c3)"
    by (rule tier_csv[OF conjI[OF q1 conjI[OF q2 conjI[OF q3 q4]]]])
  have a12: "fst (split_by_difficulty_body 0 (Str ''S'') ?F ''EZ'' ?C) = Inl IsADirectoryError"
    unfolding q5 by (rule fst_conv)

  txt \<open>a directory where the first tier's spreadsheet goes\<close>
  let ?X = "snd (read_csv ''a.csv'' tier_sheet_blocked_world)"
  let ?x1' = "snd (getitem_eq 0 ''difficulty'' ''EZ'' ?X)"
  let ?x2' = "snd (df_drop 1 [''song_name''] ?x1')"
  let ?x3' = "snd (to_csv 2 (path_join ?F (fmt (Str ''S'') @ ''_'' @ ''EZ'' @ ''.csv'')) ?x2')"
  let ?x4' = "snd (to_excel 2 (path_join ?F (fmt (Str ''S'') @ ''_'' @ ''EZ'' @ ''.xlsx'')) ?x3')"
  have "fst (getitem_eq 0 ''difficulty'' ''EZ'' ?X) = Inr 1" by code_simp
  then have u1: "getitem_eq 0 ''difficulty'' ''EZ'' ?X = (Inr 1, ?x1')" by (rule pair_fst)
  have u2: "\<not> df_empty (frames ?x1' 1)" by code_simp
  have "fst (df_drop 1 [''song_name''] ?x1') = Inr 2" by code_simp
  then have u3: "df_drop 1 [''song_name''] ?x1' = (Inr 2, ?x2')" by (rule pair_fst)
  have "fst (to_csv 2 (path_join ?F (fmt (Str ''S'') @ ''_'' @ ''EZ'' @ ''.csv'')) ?x2') = Inr ()"
    by code_simp
  then have u4: "to_csv 2 (path_join ?F (fmt (Str ''S'') @ ''_'' @ ''EZ'' @ ''.csv'')) ?x2'
                   = (Inr (), ?x3')"
    by (rule pair_fst)
  have "fst (to_excel 2 (path_join ?F (fmt (Str ''S'') @ ''_'' @ ''EZ'' @ ''.xlsx'')) ?x3')
          = Inl IsADirectoryError" by code_simp
  then have u5: "to_excel 2 (path_join ?F (fmt (Str ''S'') @ ''_'' @ ''EZ'' @ ''.xlsx'')) ?x3'
                   = (Inl IsADirectoryError, ?x4')"
    by (rule pair_fst)
  have u6: "split_by_difficulty_body 0 (Str ''S'') ?F ''EZ'' ?X = (Inl IsADirectoryError, ?x4')"
    by (rule tier_excel[OF conjI[OF u1 conjI[OF u2 conjI[OF u3 conjI[OF u4 u5]]]]])
  have a13: "fst (split_by_difficulty_body 0 (Str ''S'') ?F ''EZ'' ?X) = Inl IsADirectoryError"
    unfolding u6 by (rule fst_conv)
  have a14: "lookup (snd (split_by_difficulty_body 0 (Str ''S'') ?F ''EZ'' ?X))
               ''/w/generated_files/S/S_EZ.csv'' \<noteq> None"
    by code_simp

  txt \<open>a file where the output directory goes\<close>
  let ?O = "output_blocked_world"
  let ?o1 = "snd (os_makedirs (path_join (cwd ?O) ''generated_files'') ?O)"
  have "fst (os_makedirs (path_join (cwd ?O) ''generated_files'') ?O) = Inl FileExistsError"
    by code_simp
  then have o1: "os_makedirs (path_join (cwd ?O) ''generated_files'') ?O
                   = (Inl FileExistsError, ?o1)"
    by (rule pair_fst)
  have o2: "main ?O = (Inl FileExistsError, ?o1)" by (rule main_makedirs[OF o1])
  have a15: "fst (main ?O) = Inl FileExistsError" unfolding o2 by (rule fst_conv)

  txt \<open>a rename onto a directory\<close>
  let ?M = "marked_directory_world"
  let ?m1 = "snd (os_rename ''x_combined.csv'' (str_replace ''_combined'' '''' ''x_combined.csv'') ?M)"
  have z1: "str_contains ''_combined'' ''x_combined.csv''" by code_simp
  have "fst (os_rename ''x_combined.csv'' (str_replace ''_combined'' '''' ''x_combined.csv'') ?M)
          = Inl IsADirectoryError" by code_simp
  then have z2: "os_rename ''x_combined.csv'' (str_replace ''_combined'' '''' ''x_combined.csv'') ?M
                   = (Inl IsADirectoryError, ?m1)"
    by (rule pair_fst)
  have z3: "remove_combined_suffix ''x_combined.csv'' ?M = (Inl IsADirectoryError, ?m1)"
    by (rule normalizer_rename[OF conjI[OF z1 z2]])
  have z4: "main_body ?od ''x_combined.csv'' ?M = (Inl IsADirectoryError, ?m1)"
    by (rule body_normalizer[OF z3])
  have a16: "fst (main_body ?od ''x_combined.csv'' ?M) = Inl IsADirectoryError"
    unfolding z4 by (rule fst_conv)

  show ?thesis
    using a1 a2 a3 a4 a5 a6 a7 a8 a9 a10 a11 a12 a13 a14 a15 a16 by (intro conjI)
qed

section \<open>Placement of the input file\<close>

text \<open>
  C6. The script renames \<^verbatim>\<open>song_combined.csv\<close> to \<^verbatim>\<open>song.csv\<close> and then moves it to the song
  folder under \<^verbatim>\<open>file_name\<close>, the name it had before the rename: the folder holds
  \<^verbatim>\<open>song_combined.csv\<close> and no \<^verbatim>\<open>song.csv\<close>.
\<close>

theorem main_keeps_marked_name:
  "fst (main example_world) = Inr () \<and>
   lookup (snd (main example_world)) ''/w/generated_files/Airglow/song_combined.csv''
     = Some (File example_table) \<and>
   lookup (snd (main example_world)) ''/w/generated_files/Airglow/song.csv'' = None \<and>
   lookup (snd (main example_world)) ''/w/song.csv'' = None"
  by code_simp

lemma os_rename_file_dirs:
  assumes "lookup w (abspath w src) = Some (File c)" and "os_rename src dst w = (r, w')"
  shows "is_dir w' p = is_dir w p"
proof (cases "src = [] \<or> dst = [] \<or> is_dir w (abspath w dst) \<or>
    \<not> is_dir w (dirname (abspath w dst))")
  case True
  then have "w' = w" using assms by (auto simp: os_rename_def Let_def split: if_splits)
  then show ?thesis by simp
next
  case False
  then have "w' = w\<lparr>nodes := AList.update (abspath w dst) (File c) (AList.delete (abspath w src) (nodes w))\<rparr>"
    using assms by (auto simp: os_rename_def Let_def split: if_splits)
  then show ?thesis using False assms(1)
    by (auto simp: is_dir_def lookup_def lookup_update lookup_delete)
qed

lemma remove_combined_suffix_file_dirs:
  assumes "lookup w (abspath w name) = Some (File c)" and "remove_combined_suffix name w = (r, w1)"
  shows "is_dir w1 p = is_dir w p"
proof (cases "str_contains ''_combined'' name")
  case False
  then have "w1 = w" using assms(2) by (simp add: remove_combined_suffix_unmarked)
  then show ?thesis by simp
next
  case True
  obtain r' w' where rn: "os_rename name (str_replace ''_combined'' '''' name) w = (r', w')"
    by (cases "os_rename name (str_replace ''_combined'' '''' name) w")
  have "w1 = w'"
    using True assms(2) rn by (cases r') (simp_all add: remove_combined_suffix_def Let_def)
  then show ?thesis using os_rename_file_dirs[OF assms(1) rn] by simp
qed

lemma read_csv_nodes: "read_csv path w = (r, w') \<Longrightarrow> nodes w' = nodes w"
  by (auto simp: read_csv_def alloc_def split: option.splits node.splits content.splits if_splits)

text \<open>
  C5. When the loaded table has no data row, the body of the file loop fails where line
  56 reads the song identifier: with \<^verbatim>\<open>IndexError\<close> when the \<^verbatim>\<open>song_name\<close> column is there,
  with \<^verbatim>\<open>KeyError\<close> when it is not. The file system is then as the normalizer left it, and
  for an input that is a regular file the directories are those of the start: no song
  folder has been created.
\<close>

theorem empty_table_fails_before_folder:
  assumes "remove_combined_suffix file_name w = (Inr file_path, w1)"
    and "read_csv file_path w1 = (Inr df, w2)"
    and "rows (frames w2 df) = []"
  shows "main_body output_dir file_name w =
           (Inl (if ''song_name'' \<in> set (columns (frames w2 df)) then IndexError else KeyError), w2) \<and>
         nodes w2 = nodes w1 \<and>
         (\<forall>c. lookup w (abspath w file_name) = Some (File c) \<longrightarrow> (\<forall>p. is_dir w2 p = is_dir w p))"
proof -
  have a: "main_body output_dir file_name w =
           (Inl (if ''song_name'' \<in> set (columns (frames w2 df)) then IndexError else KeyError), w2)"
    by (simp add: main_body_def assms column_first_def)
  have b: "nodes w2 = nodes w1" using assms(2) by (rule read_csv_nodes)
  have c: "is_dir w2 p = is_dir w p" if "lookup w (abspath w file_name) = Some (File c)" for c p
    using remove_combined_suffix_file_dirs[OF that assms(1)] is_dir_nodes[OF b] by simp
  show ?thesis using a b c by blast
qed

theorem empty_table_fails_before_folder_witness:
  "fst (main_body ''/w/generated_files'' ''e_combined.csv'' header_only_world) = Inl IndexError \<and>
   lookup header_only_world (abspath header_only_world ''e_combined.csv'')
     = Some (File (Delimited [''song_name'', ''difficulty'', ''score''] [])) \<and>
   (\<forall>p. is_dir (snd (main_body ''/w/generated_files'' ''e_combined.csv'' header_only_world)) p
        = is_dir header_only_world p)"
proof -
  let ?w1 = "snd (remove_combined_suffix ''e_combined.csv'' header_only_world)"
  let ?w2 = "snd (read_csv ''e.csv'' ?w1)"
  have "fst (remove_combined_suffix ''e_combined.csv'' header_only_world) = Inr ''e.csv''"
    by code_simp
  then have h1: "remove_combined_suffix ''e_combined.csv'' header_only_world = (Inr ''e.csv'', ?w1)"
    by (rule pair_fst)
  have "fst (read_csv ''e.csv'' ?w1) = Inr 0" by code_simp
  then have h2: "read_csv ''e.csv'' ?w1 = (Inr 0, ?w2)" by (rule pair_fst)
  have h3: "rows (frames ?w2 0) = []" by code_simp
  have s: "''song_name'' \<in> set (columns (frames ?w2 0))" by code_simp
  have f: "lookup header_only_world (abspath header_only_world ''e_combined.csv'')
     = Some (File (Delimited [''song_name'', ''difficulty'', ''score''] []))" by code_simp
  note t = empty_table_fails_before_folder[OF h1 h2 h3, of "''/w/generated_files''"]
  have m: "main_body ''/w/generated_files'' ''e_combined.csv'' header_only_world = (Inl IndexError, ?w2)"
    using conjunct1[OF t] s by (simp only: if_True)
  have d: "\<forall>p. is_dir ?w2 p = is_dir header_only_world p"
    using conjunct2[OF conjunct2[OF t]] f by blast
  show ?thesis unfolding m fst_conv snd_conv using f d by (intro conjI) simp_all
qed

subsection \<open>Dropping a column\<close>

lemma zip_drop_cells:
  "zip (filter (\<lambda>c. c \<notin> set cs) cols) (drop_cells cs cols r)
     = filter (\<lambda>(n, v). n \<notin> set cs) (zip cols r)"
  unfolding drop_cells_def
proof (induction cols arbitrary: r)
  case Nil
  show ?case by simp
next
  case (Cons c cols)
  show ?case
  proof (cases r)
    case Nil
    then show ?thesis by simp
  next
    case (Cons v vs)
    with Cons.IH[of vs] show ?thesis by simp
  qed
qed

lemma map_of_filter_key:
  "P c \<Longrightarrow> map_of (filter (\<lambda>(n, v). P n) xs) c = map_of xs c"
  by (induction xs) auto

lemma cell_of_drop_cells:
  assumes "c \<notin> set cs"
  shows "cell_of (filter (\<lambda>c. c \<notin> set cs) cols) (drop_cells cs cols r) c = cell_of cols r c"
  unfolding cell_of_def zip_drop_cells
  using map_of_filter_key[of "\<lambda>n. n \<notin> set cs" c "zip cols r"] assms by simp

lemma drop_cells_absent:
  assumes "set cs \<inter> set cols = {}" and "length r = length cols"
  shows "drop_cells cs cols r = r"
proof -
  have "filter (\<lambda>(n, v). n \<notin> set cs) (zip cols r) = zip cols r"
    using assms(1) by (auto simp: filter_id_conv dest: set_zip_leftD)
  then show ?thesis unfolding drop_cells_def using assms(2) by simp
qed

lemma columns_drop_columns:
  "columns (drop_columns cs df) = filter (\<lambda>c. c \<notin> set cs) (columns df)"
  by (simp add: drop_columns_def)

lemma rows_drop_columns:
  "rows (drop_columns cs df) = map (\<lambda>(i, r). (i, drop_cells cs (columns df) r)) (rows df)"
  by (simp add: drop_columns_def)

lemma index_drop_columns: "map fst (rows (drop_columns cs df)) = map fst (rows df)"
  by (simp add: rows_drop_columns case_prod_unfold comp_def)

lemma length_rows_drop_columns: "length (rows (drop_columns cs df)) = length (rows df)"
  by (simp add: rows_drop_columns)

lemma nth_rows_drop_columns:
  assumes "k < length (rows df)"
  shows "snd (rows (drop_columns cs df) ! k) = drop_cells cs (columns df) (snd (rows df ! k))"
  using assms by (simp add: rows_drop_columns case_prod_unfold)

lemma cell_of_drop_columns:
  assumes "k < length (rows df)" and "c \<notin> set cs"
  shows "cell_of (columns (drop_columns cs df)) (snd (rows (drop_columns cs df) ! k)) c
           = cell_of (columns df) (snd (rows df ! k)) c"
  unfolding nth_rows_drop_columns[OF assms(1)] columns_drop_columns
  by (rule cell_of_drop_cells[OF assms(2)])

lemma drop_columns_absent:
  assumes "set cs \<inter> set (columns df) = {}" and "rectangular df"
  shows "columns (drop_columns cs df) = columns df"
    and "map snd (rows (drop_columns cs df)) = map snd (rows df)"
proof -
  show "columns (drop_columns cs df) = columns df"
    unfolding columns_drop_columns using assms(1) by (auto simp: filter_id_conv)
  have "\<forall>x\<in>set (rows df). drop_cells cs (columns df) (snd x) = snd x"
    using assms drop_cells_absent[of cs "columns df"]
    by (auto simp: rectangular_def list_all_iff)
  then show "map snd (rows (drop_columns cs df)) = map snd (rows df)"
    by (simp add: rows_drop_columns case_prod_unfold comp_def)
qed

subsection \<open>Writing a file\<close>

lemma write_file_store:
  assumes "write_file path c w = (r, w')"
  shows "frames w' = frames w" and "next_ref w' = next_ref w" and "cwd w' = cwd w"
  using assms by (auto simp: write_file_def Let_def split: if_splits)

lemma write_file_other:
  assumes "write_file path c w = (r, w')" and "p \<noteq> abspath w path"
  shows "lookup w' p = lookup w p"
  using assms by (auto simp: write_file_def Let_def lookup_def lookup_update split: if_splits)

lemma write_file_written:
  assumes "write_file path c w = (Inr (), w')"
  shows "lookup w' (abspath w path) = Some (File c)"
  using assms by (auto simp: write_file_def Let_def lookup_def lookup_update split: if_splits)

lemma write_file_ok_iff:
  "fst (write_file path c w) = Inr () \<longleftrightarrow>
     \<not> is_dir w (abspath w path) \<and> is_dir w (dirname (abspath w path))"
  by (simp add: write_file_def Let_def)

lemma abspath_cwd: "cwd w' = cwd w \<Longrightarrow> abspath w' p = abspath w p"
  by (simp add: abspath_def)

subsection \<open>Paths of the exports\<close>

lemma path_join_inj:
  assumes "prefix ''/'' b1 \<longleftrightarrow> prefix ''/'' b2" and "path_join a b1 = path_join a b2"
  shows "b1 = b2"
  using assms by (auto simp: path_join_def split: if_splits)

lemma path_join_abs:
  "prefix ''/'' (path_join a b) \<longleftrightarrow> prefix ''/'' b \<or> (\<not> prefix ''/'' b \<and> prefix ''/'' (a @ b))"
  by (cases a) (auto simp: path_join_def suffix_def)

lemma prefix_sep_name: "prefix ''/'' (s @ CHR ''_'' # t) \<longleftrightarrow> prefix ''/'' s"
  by (cases s) simp_all

lemma prefix_sep_dot: "prefix ''/'' (s @ CHR ''.'' # t) \<longleftrightarrow> prefix ''/'' s"
  by (cases s) simp_all

lemma path_join_abs_cong:
  assumes "prefix ''/'' b1 \<longleftrightarrow> prefix ''/'' b2"
  shows "prefix ''/'' (path_join a b1) \<longleftrightarrow> prefix ''/'' (path_join a b2)"
  using assms by (cases a) (auto simp: path_join_def)

lemma export_path_inj:
  assumes "prefix ''/'' b1 \<longleftrightarrow> prefix ''/'' b2"
    and "abspath w (path_join f b1) = abspath w (path_join f b2)"
  shows "b1 = b2"
proof -
  have "path_join f b1 = path_join f b2"
    using path_join_abs_cong[OF assms(1), of f] assms(2) unfolding abspath_def
    by (rule path_join_inj)
  with assms(1) show ?thesis by (rule path_join_inj)
qed

lemma tier_path_inj:
  assumes "tier_path w f s d e = tier_path w f s d' e'"
  shows "d @ e = d' @ e'"
proof -
  have "prefix ''/'' (fmt s @ ''_'' @ d @ e) \<longleftrightarrow> prefix ''/'' (fmt s @ ''_'' @ d' @ e')"
    by (simp add: prefix_sep_name)
  from export_path_inj[OF this] assms have "fmt s @ ''_'' @ d @ e = fmt s @ ''_'' @ d' @ e'"
    unfolding tier_path_def by blast
  then show ?thesis by simp
qed

lemma tier_path_ext: "tier_path w f s d ''.csv'' \<noteq> tier_path w f s d ''.xlsx''"
proof
  assume "tier_path w f s d ''.csv'' = tier_path w f s d ''.xlsx''"
  from tier_path_inj[OF this] show False by simp
qed

lemma tier_path_tiers:
  assumes "d \<in> set difficulties" and "d' \<in> set difficulties" and "d \<noteq> d'"
    and "e = ''.csv'' \<or> e = ''.xlsx''" and "e' = ''.csv'' \<or> e' = ''.xlsx''"
  shows "tier_path w f s d e \<noteq> tier_path w f s d' e'"
proof
  assume "tier_path w f s d e = tier_path w f s d' e'"
  from tier_path_inj[OF this] have "d @ e = d' @ e'" .
  moreover have "length d = 2" "length d' = 2"
    using assms(1,2) by (auto simp: difficulties_def)
  ultimately have "d = d'" by (metis append_eq_append_conv)
  with assms(3) show False by simp
qed

lemma song_path_tier: "song_path w f s \<noteq> tier_path w f s d e"
proof
  assume a: "song_path w f s = tier_path w f s d e"
  have "prefix ''/'' (fmt s @ ''.xlsx'') \<longleftrightarrow> prefix ''/'' (fmt s @ ''_'' @ d @ e)"
    by (simp add: prefix_sep_name prefix_sep_dot)
  from export_path_inj[OF this] a have "fmt s @ ''.xlsx'' = fmt s @ ''_'' @ d @ e"
    unfolding tier_path_def song_path_def by blast
  then show False by simp
qed

subsection \<open>One tier\<close>

lemma partition_rows_select:
  assumes "''difficulty'' \<in> set (columns (frames w df))"
  shows "partition_rows df d w = rows (select_rows (frames w df) ''difficulty'' d)"
  unfolding partition_rows_filter[OF assms] by (simp add: select_rows_def)

lemma body_empty:
  assumes "''difficulty'' \<in> set (columns (frames w df))" and "partition_rows df d w = []"
  shows "split_by_difficulty_body df song folder d w =
           (Inr (), w\<lparr>frames := (frames w)(next_ref w := select_rows (frames w df) ''difficulty'' d),
                      next_ref := Suc (next_ref w)\<rparr>)"
proof -
  have "rows (select_rows (frames w df) ''difficulty'' d) = []"
    using assms(2) unfolding partition_rows_select[OF assms(1)] .
  then show ?thesis
    unfolding split_by_difficulty_body_def getitem_eq_frame[OF assms(1)]
    by (simp add: df_empty_def)
qed

lemma body_nonempty:
  assumes "''difficulty'' \<in> set (columns (frames w df))" and "partition_rows df d w \<noteq> []"
  shows "split_by_difficulty_body df song folder d w =
           (case write_file (path_join folder (fmt song @ ''_'' @ d @ ''.csv''))
                   (Delimited (columns (tier_export (frames w df) d))
                      (map snd (rows (tier_export (frames w df) d))))
                   (w\<lparr>frames := (frames w)
                         (next_ref w := select_rows (frames w df) ''difficulty'' d,
                          Suc (next_ref w) := tier_export (frames w df) d),
                       next_ref := Suc (Suc (next_ref w))\<rparr>) of
              (Inl e, w3) \<Rightarrow> (Inl e, w3)
            | (Inr u, w3) \<Rightarrow>
                write_file (path_join folder (fmt song @ ''_'' @ d @ ''.xlsx''))
                  (Sheet (columns (tier_export (frames w df) d))
                     (map snd (rows (tier_export (frames w df) d)))) w3)"
proof -
  let ?P = "select_rows (frames w df) ''difficulty'' d"
  let ?D = "tier_export (frames w df) d"
  let ?w2 = "w\<lparr>frames := (frames w)(next_ref w := ?P, Suc (next_ref w) := ?D),
               next_ref := Suc (Suc (next_ref w))\<rparr>"
  let ?csv = "path_join folder (fmt song @ ''_'' @ d @ ''.csv'')"
  let ?xlsx = "path_join folder (fmt song @ ''_'' @ d @ ''.xlsx'')"
  have ne: "rows ?P \<noteq> []"
    using assms(2) unfolding partition_rows_select[OF assms(1)] .
  have cols: "columns ?P \<noteq> []" using assms(1) by (auto simp: select_rows_def)
  obtain r3 w3 where w3:
    "write_file ?csv (Delimited (columns ?D) (map snd (rows ?D))) ?w2 = (r3, w3)"
    by (cases "write_file ?csv (Delimited (columns ?D) (map snd (rows ?D))) ?w2")
  have f3: "frames w3 = frames ?w2" by (rule write_file_store(1)[OF w3])
  have te: "to_excel (Suc (next_ref w)) ?xlsx w3
              = write_file ?xlsx (Sheet (columns ?D) (map snd (rows ?D))) w3"
    by (simp add: to_excel_def f3)
  have tc: "to_csv (Suc (next_ref w)) ?csv ?w2 = (r3, w3)"
    using w3 by (simp add: to_csv_def)
  have dd: "df_drop (next_ref w) [''song_name'']
              (w\<lparr>frames := (frames w)(next_ref w := ?P), next_ref := Suc (next_ref w)\<rparr>)
            = (Inr (Suc (next_ref w)), ?w2)"
    by (simp add: df_drop_def alloc_def tier_export_def)
  show ?thesis
    unfolding split_by_difficulty_body_def getitem_eq_frame[OF assms(1)] w3
    using ne cols tc te by (cases r3) (simp_all add: df_empty_def dd Let_def)
qed

lemma body_store:
  assumes "''difficulty'' \<in> set (columns (frames w df))"
    and "split_by_difficulty_body df song folder d w = (r, w')"
  shows "cwd w' = cwd w" and "next_ref w \<le> next_ref w'"
    and "k < next_ref w \<Longrightarrow> frames w' k = frames w k"
proof -
  let ?P = "select_rows (frames w df) ''difficulty'' d"
  let ?D = "tier_export (frames w df) d"
  let ?w2 = "w\<lparr>frames := (frames w)(next_ref w := ?P, Suc (next_ref w) := ?D),
               next_ref := Suc (Suc (next_ref w))\<rparr>"
  let ?csv = "path_join folder (fmt song @ ''_'' @ d @ ''.csv'')"
  let ?xlsx = "path_join folder (fmt song @ ''_'' @ d @ ''.xlsx'')"
  have "cwd w' = cwd w \<and> next_ref w \<le> next_ref w' \<and> (k < next_ref w \<longrightarrow> frames w' k = frames w k)"
  proof (cases "partition_rows df d w = []")
    case True
    from assms(2) show ?thesis unfolding body_empty[OF assms(1) True] by auto
  next
    case False
    obtain r3 w3 where w3:
      "write_file ?csv (Delimited (columns ?D) (map snd (rows ?D))) ?w2 = (r3, w3)"
      by (cases "write_file ?csv (Delimited (columns ?D) (map snd (rows ?D))) ?w2")
    note s3 = write_file_store[OF w3]
    show ?thesis
    proof (cases r3)
      case (Inl e)
      with assms(2) w3 have "w' = w3" unfolding body_nonempty[OF assms(1) False] by simp
      with s3 show ?thesis by simp
    next
      case (Inr u)
      with assms(2) w3 have
        "write_file ?xlsx (Sheet (columns ?D) (map snd (rows ?D))) w3 = (r, w')"
        unfolding body_nonempty[OF assms(1) False] by simp
      from write_file_store[OF this] s3 show ?thesis by simp
    qed
  qed
  then show "cwd w' = cwd w" and "next_ref w \<le> next_ref w'"
    and "k < next_ref w \<Longrightarrow> frames w' k = frames w k" by simp_all
qed

lemma body_other:
  assumes "''difficulty'' \<in> set (columns (frames w df))"
    and "split_by_difficulty_body df song folder d w = (r, w')"
    and "p \<noteq> tier_path w folder song d ''.csv''"
    and "p \<noteq> tier_path w folder song d ''.xlsx''"
  shows "lookup w' p = lookup w p"
proof (cases "partition_rows df d w = []")
  case True
  from assms(2) show ?thesis unfolding body_empty[OF assms(1) True] by (auto simp: lookup_def)
next
  case False
  let ?P = "select_rows (frames w df) ''difficulty'' d"
  let ?D = "tier_export (frames w df) d"
  let ?w2 = "w\<lparr>frames := (frames w)(next_ref w := ?P, Suc (next_ref w) := ?D),
               next_ref := Suc (Suc (next_ref w))\<rparr>"
  let ?csv = "path_join folder (fmt song @ ''_'' @ d @ ''.csv'')"
  let ?xlsx = "path_join folder (fmt song @ ''_'' @ d @ ''.xlsx'')"
  obtain r3 w3 where w3:
    "write_file ?csv (Delimited (columns ?D) (map snd (rows ?D))) ?w2 = (r3, w3)"
    by (cases "write_file ?csv (Delimited (columns ?D) (map snd (rows ?D))) ?w2")
  have a2: "abspath ?w2 ?csv = tier_path w folder song d ''.csv''"
    by (simp add: tier_path_def abspath_def)
  have l2: "lookup ?w2 p = lookup w p" by (simp add: lookup_def)
  have l3: "lookup w3 p = lookup w p"
    using write_file_other[OF w3, of p] assms(3) a2 l2 by simp
  have a3: "abspath w3 ?xlsx = tier_path w folder song d ''.xlsx''"
    using write_file_store(3)[OF w3] by (simp add: tier_path_def abspath_def)
  show ?thesis
  proof (cases r3)
    case (Inl e)
    with assms(2) w3 have "w' = w3" unfolding body_nonempty[OF assms(1) False] by simp
    with l3 show ?thesis by simp
  next
    case (Inr u)
    with assms(2) w3 have
      "write_file ?xlsx (Sheet (columns ?D) (map snd (rows ?D))) w3 = (r, w')"
      unfolding body_nonempty[OF assms(1) False] by simp
    from write_file_other[OF this, of p] assms(4) a3 l3 show ?thesis by simp
  qed
qed

lemma body_written:
  assumes "''difficulty'' \<in> set (columns (frames w df))"
    and "partition_rows df d w \<noteq> []"
    and "split_by_difficulty_body df song folder d w = (Inr (), w')"
  shows "lookup w' (tier_path w folder song d ''.csv'') =
           Some (File (Delimited (columns (tier_export (frames w df) d))
                         (map snd (rows (tier_export (frames w df) d)))))"
    and "lookup w' (tier_path w folder song d ''.xlsx'') =
           Some (File (Sheet (columns (tier_export (frames w df) d))
                         (map snd (rows (tier_export (frames w df) d)))))"
proof -
  let ?P = "select_rows (frames w df) ''difficulty'' d"
  let ?D = "tier_export (frames w df) d"
  let ?w2 = "w\<lparr>frames := (frames w)(next_ref w := ?P, Suc (next_ref w) := ?D),
               next_ref := Suc (Suc (next_ref w))\<rparr>"
  let ?csv = "path_join folder (fmt song @ ''_'' @ d @ ''.csv'')"
  let ?xlsx = "path_join folder (fmt song @ ''_'' @ d @ ''.xlsx'')"
  obtain r3 w3 where w3:
    "write_file ?csv (Delimited (columns ?D) (map snd (rows ?D))) ?w2 = (r3, w3)"
    by (cases "write_file ?csv (Delimited (columns ?D) (map snd (rows ?D))) ?w2")
  have a2: "abspath ?w2 ?csv = tier_path w folder song d ''.csv''"
    by (simp add: tier_path_def abspath_def)
  have a3: "abspath w3 ?xlsx = tier_path w folder song d ''.xlsx''"
    using write_file_store(3)[OF w3] by (simp add: tier_path_def abspath_def)
  have r3: "r3 = Inr ()"
    using assms(3) w3 unfolding body_nonempty[OF assms(1,2)] by (cases r3) simp_all
  have x: "write_file ?xlsx (Sheet (columns ?D) (map snd (rows ?D))) w3 = (Inr (), w')"
    using assms(3) w3 r3 unfolding body_nonempty[OF assms(1,2)] by simp
  have c3: "lookup w3 (tier_path w folder song d ''.csv'') =
              Some (File (Delimited (columns ?D) (map snd (rows ?D))))"
    using write_file_written[of ?csv _ ?w2 w3] w3 r3 a2 by simp
  show "lookup w' (tier_path w folder song d ''.csv'') =
           Some (File (Delimited (columns ?D) (map snd (rows ?D))))"
    using write_file_other[OF x, of "tier_path w folder song d ''.csv''"] a3 c3
      tier_path_ext[of w folder song d] by simp
  show "lookup w' (tier_path w folder song d ''.xlsx'') =
           Some (File (Sheet (columns ?D) (map snd (rows ?D))))"
    using write_file_written[OF x] a3 by simp
qed

subsection \<open>The loop over the tiers\<close>

lemma partition_rows_frame:
  "partition_rows df d w =
     (if ''difficulty'' \<in> set (columns (frames w df))
      then rows (select_rows (frames w df) ''difficulty'' d) else [])"
  by (simp add: partition_rows_def getitem_eq_def alloc_def)

lemma partition_rows_cong:
  assumes "frames w1 df = frames w df"
  shows "partition_rows df d w1 = partition_rows df d w"
  unfolding partition_rows_frame assms ..

lemma tier_path_cwd: "cwd w1 = cwd w \<Longrightarrow> tier_path w1 f s d e = tier_path w f s d e"
  by (simp add: tier_path_def abspath_def)

lemma song_path_cwd: "cwd w1 = cwd w \<Longrightarrow> song_path w1 f s = song_path w f s"
  by (simp add: song_path_def abspath_def)

lemma loop_store:
  assumes "''difficulty'' \<in> set (columns (frames w df))" and "df < next_ref w"
    and "split_by_difficulty_loop df song folder ds w = (r, w')"
  shows "cwd w' = cwd w \<and> next_ref w \<le> next_ref w' \<and> (\<forall>k<next_ref w. frames w' k = frames w k)"
  using assms
proof (induction ds arbitrary: w)
  case Nil
  then show ?case by simp
next
  case (Cons a ds)
  obtain r1 w1 where b: "split_by_difficulty_body df song folder a w = (r1, w1)"
    by (cases "split_by_difficulty_body df song folder a w")
  note s = body_store[OF Cons.prems(1) b]
  show ?case
  proof (cases r1)
    case (Inl e)
    with b Cons.prems(3) have "w' = w1" by simp
    with s show ?thesis by simp
  next
    case (Inr u)
    with b Cons.prems(3) have l: "split_by_difficulty_loop df song folder ds w1 = (r, w')"
      by simp
    have f: "frames w1 df = frames w df" by (rule s(3)[OF Cons.prems(2)])
    have c1: "''difficulty'' \<in> set (columns (frames w1 df))" using Cons.prems(1) f by simp
    have v1: "df < next_ref w1" using s(2) Cons.prems(2) by simp
    note ih = Cons.IH[OF c1 v1 l]
    have "frames w' k = frames w k" if "k < next_ref w" for k
    proof -
      have "k < next_ref w1" using that s(2) by simp
      with ih have "frames w' k = frames w1 k" by blast
      with s(3)[OF that] show ?thesis by simp
    qed
    with ih s(1,2) show ?thesis by simp
  qed
qed

lemma loop_other:
  assumes "''difficulty'' \<in> set (columns (frames w df))" and "df < next_ref w"
    and "split_by_difficulty_loop df song folder ds w = (r, w')"
    and "\<forall>d\<in>set ds. p \<noteq> tier_path w folder song d ''.csv'' \<and>
                      p \<noteq> tier_path w folder song d ''.xlsx''"
  shows "lookup w' p = lookup w p"
  using assms
proof (induction ds arbitrary: w)
  case Nil
  then show ?case by simp
next
  case (Cons a ds)
  obtain r1 w1 where b: "split_by_difficulty_body df song folder a w = (r1, w1)"
    by (cases "split_by_difficulty_body df song folder a w")
  note s = body_store[OF Cons.prems(1) b]
  have o: "lookup w1 p = lookup w p"
    using body_other[OF Cons.prems(1) b, of p] Cons.prems(4) by simp
  show ?case
  proof (cases r1)
    case (Inl e)
    with b Cons.prems(3) have "w' = w1" by simp
    with o show ?thesis by simp
  next
    case (Inr u)
    with b Cons.prems(3) have l: "split_by_difficulty_loop df song folder ds w1 = (r, w')"
      by simp
    have f: "frames w1 df = frames w df" by (rule s(3)[OF Cons.prems(2)])
    have c1: "''difficulty'' \<in> set (columns (frames w1 df))" using Cons.prems(1) f by simp
    have v1: "df < next_ref w1" using s(2) Cons.prems(2) by simp
    have p1: "\<forall>d\<in>set ds. p \<noteq> tier_path w1 folder song d ''.csv'' \<and>
                      p \<noteq> tier_path w1 folder song d ''.xlsx''"
      using Cons.prems(4) by (simp add: tier_path_cwd[OF s(1)])
    from Cons.IH[OF c1 v1 l p1] o show ?thesis by simp
  qed
qed

lemma loop_written:
  assumes "''difficulty'' \<in> set (columns (frames w df))" and "df < next_ref w"
    and "split_by_difficulty_loop df song folder ds w = (Inr (), w')"
    and "distinct ds" and "set ds \<subseteq> set difficulties"
    and "d \<in> set ds" and "partition_rows df d w \<noteq> []"
  shows "lookup w' (tier_path w folder song d ''.csv'') =
           Some (File (Delimited (columns (tier_export (frames w df) d))
                         (map snd (rows (tier_export (frames w df) d))))) \<and>
         lookup w' (tier_path w folder song d ''.xlsx'') =
           Some (File (Sheet (columns (tier_export (frames w df) d))
                         (map snd (rows (tier_export (frames w df) d)))))"
  using assms
proof (induction ds arbitrary: w)
  case Nil
  then show ?case by simp
next
  case (Cons a ds)
  obtain r1 w1 where b: "split_by_difficulty_body df song folder a w = (r1, w1)"
    by (cases "split_by_difficulty_body df song folder a w")
  note s = body_store[OF Cons.prems(1) b]
  have r1: "r1 = Inr ()" using b Cons.prems(3) by (cases r1) simp_all
  have l: "split_by_difficulty_loop df song folder ds w1 = (Inr (), w')"
    using b r1 Cons.prems(3) by simp
  have f: "frames w1 df = frames w df" by (rule s(3)[OF Cons.prems(2)])
  have c1: "''difficulty'' \<in> set (columns (frames w1 df))" using Cons.prems(1) f by simp
  have v1: "df < next_ref w1" using s(2) Cons.prems(2) by simp
  show ?case
  proof (cases "d = a")
    case True
    have b': "split_by_difficulty_body df song folder d w = (Inr (), w1)"
      using b r1 True by simp
    note wr = body_written[OF Cons.prems(1) Cons.prems(7) b']
    have nd: "d \<notin> set ds" using Cons.prems(4) True by simp
    have din: "d \<in> set difficulties" using Cons.prems(5,6) by blast
    have other: "\<forall>d'\<in>set ds. tier_path w folder song d e \<noteq> tier_path w1 folder song d' ''.csv'' \<and>
                     tier_path w folder song d e \<noteq> tier_path w1 folder song d' ''.xlsx''"
      if "e = ''.csv'' \<or> e = ''.xlsx''" for e
    proof
      fix d' assume d': "d' \<in> set ds"
      then have "d' \<in> set difficulties" "d \<noteq> d'" using Cons.prems(5) nd by auto
      with din that show "tier_path w folder song d e \<noteq> tier_path w1 folder song d' ''.csv'' \<and>
                     tier_path w folder song d e \<noteq> tier_path w1 folder song d' ''.xlsx''"
        unfolding tier_path_cwd[OF s(1)] by (intro conjI tier_path_tiers) simp_all
    qed
    have "lookup w' (tier_path w folder song d ''.csv'') = lookup w1 (tier_path w folder song d ''.csv'')"
      by (rule loop_other[OF c1 v1 l other]) simp
    moreover have "lookup w' (tier_path w folder song d ''.xlsx'') = lookup w1 (tier_path w folder song d ''.xlsx'')"
      by (rule loop_other[OF c1 v1 l other]) simp
    ultimately show ?thesis using wr by simp
  next
    case False
    then have din: "d \<in> set ds" using Cons.prems(6) by simp
    have ne: "partition_rows df d w1 \<noteq> []"
      using Cons.prems(7) by (simp add: partition_rows_cong[OF f])
    have "distinct ds" "set ds \<subseteq> set difficulties" using Cons.prems(4,5) by simp_all
    from Cons.IH[OF c1 v1 l this din ne] show ?thesis
      by (simp add: tier_path_cwd[OF s(1)] f)
  qed
qed

lemma loop_skipped:
  assumes "''difficulty'' \<in> set (columns (frames w df))" and "df < next_ref w"
    and "split_by_difficulty_loop df song folder ds w = (r, w')"
    and "set ds \<subseteq> set difficulties" and "d \<in> set difficulties"
    and "partition_rows df d w = []" and "e = ''.csv'' \<or> e = ''.xlsx''"
  shows "lookup w' (tier_path w folder song d e) = lookup w (tier_path w folder song d e)"
  using assms
proof (induction ds arbitrary: w)
  case Nil
  then show ?case by simp
next
  case (Cons a ds)
  obtain r1 w1 where b: "split_by_difficulty_body df song folder a w = (r1, w1)"
    by (cases "split_by_difficulty_body df song folder a w")
  note s = body_store[OF Cons.prems(1) b]
  have ain: "a \<in> set difficulties" using Cons.prems(4) by simp
  have o: "lookup w1 (tier_path w folder song d e) = lookup w (tier_path w folder song d e)"
  proof (cases "d = a")
    case True
    from b show ?thesis
      unfolding True[symmetric] body_empty[OF Cons.prems(1) Cons.prems(6)]
      by (auto simp: lookup_def)
  next
    case False
    have "tier_path w folder song d e \<noteq> tier_path w folder song a ''.csv''"
      "tier_path w folder song d e \<noteq> tier_path w folder song a ''.xlsx''"
      using Cons.prems(5) ain False Cons.prems(7) by (intro tier_path_tiers; simp)+
    then show ?thesis by (rule body_other[OF Cons.prems(1) b])
  qed
  show ?case
  proof (cases r1)
    case (Inl e')
    with b Cons.prems(3) have "w' = w1" by simp
    with o show ?thesis by simp
  next
    case (Inr u)
    with b Cons.prems(3) have l: "split_by_difficulty_loop df song folder ds w1 = (r, w')"
      by simp
    have f: "frames w1 df = frames w df" by (rule s(3)[OF Cons.prems(2)])
    have c1: "''difficulty'' \<in> set (columns (frames w1 df))" using Cons.prems(1) f by simp
    have v1: "df < next_ref w1" using s(2) Cons.prems(2) by simp
    have e1: "partition_rows df d w1 = []"
      using Cons.prems(6) by (simp add: partition_rows_cong[OF f])
    have "set ds \<subseteq> set difficulties" using Cons.prems(4) by simp
    from Cons.IH[OF c1 v1 l this Cons.prems(5) e1 Cons.prems(7)] o show ?thesis
      by (simp add: tier_path_cwd[OF s(1)])
  qed
qed

lemma distinct_difficulties: "distinct difficulties"
  by (simp add: difficulties_def)

subsection \<open>The export of the whole table\<close>

lemma whole_song_export_write:
  "whole_song_export df song folder w =
     write_file (path_join folder (fmt song @ ''.xlsx''))
       (Sheet (columns (drop_columns [''song_name''] (frames w df)))
          (map snd (rows (drop_columns [''song_name''] (frames w df)))))
       (w\<lparr>frames := (frames w)(next_ref w := drop_columns [''song_name''] (frames w df)),
          next_ref := Suc (next_ref w)\<rparr>)"
  by (simp add: whole_song_export_def df_drop_def alloc_def to_excel_def Let_def)

lemma whole_song_export_store:
  assumes "whole_song_export df song folder w = (r, w')"
  shows "cwd w' = cwd w" and "next_ref w \<le> next_ref w'"
    and "k < next_ref w \<Longrightarrow> frames w' k = frames w k"
proof -
  note s = write_file_store[OF assms[unfolded whole_song_export_write]]
  show "cwd w' = cwd w" using s(3) by simp
  show "next_ref w \<le> next_ref w'" using s(2) by simp
  show "frames w' k = frames w k" if "k < next_ref w" using s(1) that by simp
qed

lemma whole_song_export_other:
  assumes "whole_song_export df song folder w = (r, w')" and "p \<noteq> song_path w folder song"
  shows "lookup w' p = lookup w p"
  using write_file_other[OF assms(1)[unfolded whole_song_export_write], of p] assms(2)
  by (simp add: song_path_def abspath_def lookup_def)

lemma whole_song_export_written:
  assumes "whole_song_export df song folder w = (Inr (), w')"
  shows "lookup w' (song_path w folder song) =
           Some (File (Sheet (columns (drop_columns [''song_name''] (frames w df)))
                         (map snd (rows (drop_columns [''song_name''] (frames w df))))))"
  using write_file_written[OF assms[unfolded whole_song_export_write]]
  by (simp add: song_path_def abspath_def)

lemma whole_song_export_ok_iff:
  "fst (whole_song_export df song folder w) = Inr () \<longleftrightarrow>
     \<not> is_dir w (song_path w folder song) \<and> is_dir w (dirname (song_path w folder song))"
  unfolding whole_song_export_write write_file_ok_iff
  by (simp add: song_path_def abspath_def is_dir_def lookup_def)

section \<open>The files of a tier\<close>

lemma columns_select_rows: "columns (select_rows df c v) = columns df"
  by (simp add: select_rows_def)

lemma columns_tier_export:
  "columns (tier_export df d) = filter (\<lambda>c. c \<noteq> ''song_name'') (columns df)"
  by (simp add: tier_export_def columns_drop_columns columns_select_rows)

lemma rows_tier_export:
  "map snd (rows (tier_export df d)) =
     map (\<lambda>x. drop_cells [''song_name''] (columns df) (snd x))
       (rows (select_rows df ''difficulty'' d))"
  by (simp add: tier_export_def rows_drop_columns columns_select_rows case_prod_unfold comp_def)

lemma cell_of_without_song:
  assumes "c \<noteq> ''song_name''"
  shows "cell_of (filter (\<lambda>c. c \<noteq> ''song_name'') cols) (drop_cells [''song_name''] cols r) c
           = cell_of cols r c"
  using cell_of_drop_cells[of c "[''song_name'']" cols r] assms by simp



section \<open>Tiers without rows\<close>

text \<open>
  C4. Let the table have a \<^verbatim>\<open>difficulty\<close> column and let the partition of a tier be empty.
  Whenever the loop reaches that tier, its iteration returns without an error and leaves
  the whole file system as it was: no file is written, for this tier or any other path.
  And however the partitioner ends, the two paths of the tier hold what they held before
  the call, so nothing where there was nothing.
\<close>

theorem empty_tier_writes_nothing:
  assumes "''difficulty'' \<in> set (columns (frames w df))" and "df < next_ref w"
    and "d \<in> set difficulties" and "partition_rows df d w = []"
  shows "(\<forall>tpre tpost w1.
            difficulties = tpre @ d # tpost \<and>
            split_by_difficulty_loop df song folder tpre w = (Inr (), w1) \<longrightarrow>
            fst (split_by_difficulty_body df song folder d w1) = Inr () \<and>
            nodes (snd (split_by_difficulty_body df song folder d w1)) = nodes w1) \<and>
         (\<forall>r w'. split_by_difficulty df song folder w = (r, w') \<longrightarrow>
            lookup w' (tier_path w folder song d ''.csv'')
              = lookup w (tier_path w folder song d ''.csv'') \<and>
            lookup w' (tier_path w folder song d ''.xlsx'')
              = lookup w (tier_path w folder song d ''.xlsx''))"
proof -
  have one: "fst (split_by_difficulty_body df song folder d w1) = Inr () \<and>
             nodes (snd (split_by_difficulty_body df song folder d w1)) = nodes w1"
    if l: "split_by_difficulty_loop df song folder tpre w = (Inr (), w1)" for tpre w1
  proof -
    have f: "frames w1 df = frames w df"
      using loop_store[OF assms(1,2) l] assms(2) by blast
    have c1: "''difficulty'' \<in> set (columns (frames w1 df))" using assms(1) f by simp
    have e1: "partition_rows df d w1 = []"
      using assms(4) by (simp add: partition_rows_cong[OF f])
    show ?thesis unfolding body_empty[OF c1 e1] by simp
  qed
  have two: "lookup w' (tier_path w folder song d ''.csv'')
              = lookup w (tier_path w folder song d ''.csv'') \<and>
            lookup w' (tier_path w folder song d ''.xlsx'')
              = lookup w (tier_path w folder song d ''.xlsx'')"
    if s: "split_by_difficulty df song folder w = (r, w')" for r w'
  proof -
    have l: "split_by_difficulty_loop df song folder difficulties w = (r, w')"
      using s by (simp only: split_by_difficulty_def)
    note k = loop_skipped[OF assms(1,2) l subset_refl assms(3,4)]
    have "lookup w' (tier_path w folder song d ''.csv'')
              = lookup w (tier_path w folder song d ''.csv'')"
      by (rule k) simp
    moreover have "lookup w' (tier_path w folder song d ''.xlsx'')
              = lookup w (tier_path w folder song d ''.xlsx'')"
      by (rule k) simp
    ultimately show ?thesis by (rule conjI)
  qed
  show ?thesis using one two by blast
qed

theorem empty_tier_writes_nothing_witness:
  "fst (split_by_difficulty_body 0 (Str ''Airglow'') ''/w'' ''AT''
          (snd (split_by_difficulty_loop 0 (Str ''Airglow'') ''/w'' [''EZ'', ''HD'', ''IN'']
                  (snd (read_csv ''song_combined.csv'' example_world))))) = Inr () \<and>
   nodes (snd (split_by_difficulty_body 0 (Str ''Airglow'') ''/w'' ''AT''
          (snd (split_by_difficulty_loop 0 (Str ''Airglow'') ''/w'' [''EZ'', ''HD'', ''IN'']
                  (snd (read_csv ''song_combined.csv'' example_world))))))
     = nodes (snd (split_by_difficulty_loop 0 (Str ''Airglow'') ''/w'' [''EZ'', ''HD'', ''IN'']
                  (snd (read_csv ''song_combined.csv'' example_world)))) \<and>
   fst (split_by_difficulty 0 (Str ''Airglow'') ''/w''
          (snd (read_csv ''song_combined.csv'' example_world))) = Inr () \<and>
   lookup (snd (split_by_difficulty 0 (Str ''Airglow'') ''/w''
                  (snd (read_csv ''song_combined.csv'' example_world))))
     ''/w/Airglow_AT.csv'' = None \<and>
   lookup (snd (split_by_difficulty 0 (Str ''Airglow'') ''/w''
                  (snd (read_csv ''song_combined.csv'' example_world))))
     ''/w/Airglow_AT.xlsx'' = None"
proof -
  let ?w = "snd (read_csv ''song_combined.csv'' example_world)"
  let ?w1 = "snd (split_by_difficulty_loop 0 (Str ''Airglow'') ''/w'' [''EZ'', ''HD'', ''IN''] ?w)"
  let ?w' = "snd (split_by_difficulty 0 (Str ''Airglow'') ''/w'' ?w)"
  have h1: "''difficulty'' \<in> set (columns (frames ?w 0))" by code_simp
  have h2: "0 < next_ref ?w" by code_simp
  have h3: "''AT'' \<in> set difficulties" by code_simp
  have h4: "partition_rows 0 ''AT'' ?w = []" by code_simp
  note t = empty_tier_writes_nothing[OF h1 h2 h3 h4]
  have d0: "difficulties = [''EZ'', ''HD'', ''IN''] @ ''AT'' # []"
    by (simp add: difficulties_def)
  have "fst (split_by_difficulty_loop 0 (Str ''Airglow'') ''/w'' [''EZ'', ''HD'', ''IN''] ?w)
          = Inr ()" by code_simp
  then have l0: "split_by_difficulty_loop 0 (Str ''Airglow'') ''/w'' [''EZ'', ''HD'', ''IN''] ?w
                   = (Inr (), ?w1)" by (rule pair_fst)
  have a: "fst (split_by_difficulty_body 0 (Str ''Airglow'') ''/w'' ''AT'' ?w1) = Inr () \<and>
           nodes (snd (split_by_difficulty_body 0 (Str ''Airglow'') ''/w'' ''AT'' ?w1)) = nodes ?w1"
    by (rule t[THEN conjunct1, THEN spec, THEN spec, THEN spec, THEN mp, OF conjI[OF d0 l0]])
  have f: "fst (split_by_difficulty 0 (Str ''Airglow'') ''/w'' ?w) = Inr ()" by code_simp
  then have s0: "split_by_difficulty 0 (Str ''Airglow'') ''/w'' ?w = (Inr (), ?w')"
    by (rule pair_fst)
  note u = t[THEN conjunct2, THEN spec, THEN spec, THEN mp, OF s0]
  have p: "tier_path ?w ''/w'' (Str ''Airglow'') ''AT'' ''.csv'' = ''/w/Airglow_AT.csv''"
    by code_simp
  have q: "tier_path ?w ''/w'' (Str ''Airglow'') ''AT'' ''.xlsx'' = ''/w/Airglow_AT.xlsx''"
    by code_simp
  have n1: "lookup ?w ''/w/Airglow_AT.csv'' = None" by code_simp
  have n2: "lookup ?w ''/w/Airglow_AT.xlsx'' = None" by code_simp
  have b: "lookup ?w' ''/w/Airglow_AT.csv'' = None"
    using conjunct1[OF u] unfolding p n1 .
  have c: "lookup ?w' ''/w/Airglow_AT.xlsx'' = None"
    using conjunct2[OF u] unfolding q n2 .
  show ?thesis using conjunct1[OF a] conjunct2[OF a] f b c by (intro conjI)
qed

section \<open>The export of the whole song\<close>

lemma columns_without_song:
  "columns (drop_columns [''song_name''] df) = filter (\<lambda>c. c \<noteq> ''song_name'') (columns df)"
  by (simp add: columns_drop_columns)

lemma rows_without_song:
  "map snd (rows (drop_columns [''song_name''] df)) =
     map (\<lambda>x. drop_cells [''song_name''] (columns df) (snd x)) (rows df)"
  by (simp add: rows_drop_columns case_prod_unfold comp_def)

lemma main_body_reaches_export:
  assumes "remove_combined_suffix f v = (Inr p, v1)" and "read_csv p v1 = (Inr df, v2)"
    and "column_first df ''song_name'' v2 = (Inr song, v3)"
    and "create_song_folder song od v3 = (Inr folder, v4)"
    and "shutil_move p (path_join folder f) v4 = (Inr (), v5)"
  shows "main_body od f v =
           (case whole_song_export df song folder v5 of
              (Inl e, w6) \<Rightarrow> (Inl e, w6)
            | (Inr u, w6) \<Rightarrow> split_by_difficulty df song folder w6)"
  by (simp add: main_body_def assms)

lemma column_first_value:
  assumes "column_first df c v = (Inr x, v')"
  shows "rows (frames v df) \<noteq> [] \<and>
         x = cell_of (columns (frames v df)) (snd (hd (rows (frames v df)))) c"
  using assms by (auto simp: column_first_def split: if_splits list.splits)

lemma missing_song_column_is_fatal:
  assumes "''song_name'' \<notin> set (columns (frames v2 df))"
  shows "column_first df ''song_name'' v2 = (Inl KeyError, v2)"
  using assms by (simp add: column_first_def)

text \<open>
  C8. The export of the whole table (lines 64 to 67) fails for reasons of the file system
  only, whatever the table is: it returns exactly if its path is not a directory and lies
  in a directory. When it returns, its path, \<^verbatim>\<open>{song}.xlsx\<close> in the song folder, holds a
  spreadsheet whose header is the table's header without \<^verbatim>\<open>song_name\<close> and whose rows are
  all rows of the table, in order, each without its \<^verbatim>\<open>song_name\<close> cell and with every other
  cell as it was; every other path holds what it held. For a table without a \<^verbatim>\<open>song_name\<close>
  column the spreadsheet is the table as it is. In the loop body the export is called with
  the song name read from the first row; there line 56 has read the \<^verbatim>\<open>song_name\<close> column
  before, so a table without that column ends the run with a \<^verbatim>\<open>KeyError\<close> ahead of the
  export (lemma \<open>missing_song_column_is_fatal\<close>), and the tolerance of line 65 is that of the
  export taken by itself.
\<close>

theorem whole_song_export_one_sheet:
  "(fst (whole_song_export df song folder w) = Inr () \<longleftrightarrow>
      \<not> is_dir w (song_path w folder song) \<and> is_dir w (dirname (song_path w folder song))) \<and>
   (whole_song_export df song folder w = (Inr (), w') \<longrightarrow>
      lookup w' (song_path w folder song) =
        Some (File (Sheet
          (filter (\<lambda>c. c \<noteq> ''song_name'') (columns (frames w df)))
          (map (\<lambda>x. drop_cells [''song_name''] (columns (frames w df)) (snd x))
             (rows (frames w df))))) \<and>
      (\<forall>p. p \<noteq> song_path w folder song \<longrightarrow> lookup w' p = lookup w p) \<and>
      (\<forall>x\<in>set (rows (frames w df)). \<forall>c. c \<noteq> ''song_name'' \<longrightarrow>
         cell_of (filter (\<lambda>c. c \<noteq> ''song_name'') (columns (frames w df)))
           (drop_cells [''song_name''] (columns (frames w df)) (snd x)) c
         = cell_of (columns (frames w df)) (snd x) c) \<and>
      (''song_name'' \<notin> set (columns (frames w df)) \<and> rectangular (frames w df) \<longrightarrow>
         lookup w' (song_path w folder song) =
           Some (File (Sheet (columns (frames w df)) (map snd (rows (frames w df))))))) \<and>
   (remove_combined_suffix f v = (Inr p, v1) \<and> read_csv p v1 = (Inr df, v2) \<and>
    column_first df ''song_name'' v2 = (Inr song, v3) \<and>
    create_song_folder song od v3 = (Inr folder, v4) \<and>
    shutil_move p (path_join folder f) v4 = (Inr (), v5) \<longrightarrow>
      rows (frames v2 df) \<noteq> [] \<and>
      song = cell_of (columns (frames v2 df)) (snd (hd (rows (frames v2 df)))) ''song_name'' \<and>
      main_body od f v =
        (case whole_song_export df song folder v5 of
           (Inl e, w6) \<Rightarrow> (Inl e, w6)
         | (Inr u, w6) \<Rightarrow> split_by_difficulty df song folder w6))"
proof -
  have a: "fst (whole_song_export df song folder w) = Inr () \<longleftrightarrow>
      \<not> is_dir w (song_path w folder song) \<and> is_dir w (dirname (song_path w folder song))"
    by (rule whole_song_export_ok_iff)
  have b: "lookup w' (song_path w folder song) =
        Some (File (Sheet
          (filter (\<lambda>c. c \<noteq> ''song_name'') (columns (frames w df)))
          (map (\<lambda>x. drop_cells [''song_name''] (columns (frames w df)) (snd x))
             (rows (frames w df))))) \<and>
      (\<forall>p. p \<noteq> song_path w folder song \<longrightarrow> lookup w' p = lookup w p) \<and>
      (\<forall>x\<in>set (rows (frames w df)). \<forall>c. c \<noteq> ''song_name'' \<longrightarrow>
         cell_of (filter (\<lambda>c. c \<noteq> ''song_name'') (columns (frames w df)))
           (drop_cells [''song_name''] (columns (frames w df)) (snd x)) c
         = cell_of (columns (frames w df)) (snd x) c) \<and>
      (''song_name'' \<notin> set (columns (frames w df)) \<and> rectangular (frames w df) \<longrightarrow>
         lookup w' (song_path w folder song) =
           Some (File (Sheet (columns (frames w df)) (map snd (rows (frames w df))))))"
    if ok: "whole_song_export df song folder w = (Inr (), w')"
  proof -
    note wr = whole_song_export_written[OF ok]
    have b1: "lookup w' (song_path w folder song) =
        Some (File (Sheet
          (filter (\<lambda>c. c \<noteq> ''song_name'') (columns (frames w df)))
          (map (\<lambda>x. drop_cells [''song_name''] (columns (frames w df)) (snd x))
             (rows (frames w df)))))"
      using wr unfolding columns_without_song rows_without_song .
    have b2: "\<forall>p. p \<noteq> song_path w folder song \<longrightarrow> lookup w' p = lookup w p"
      using whole_song_export_other[OF ok] by blast
    have b3: "\<forall>x\<in>set (rows (frames w df)). \<forall>c. c \<noteq> ''song_name'' \<longrightarrow>
         cell_of (filter (\<lambda>c. c \<noteq> ''song_name'') (columns (frames w df)))
           (drop_cells [''song_name''] (columns (frames w df)) (snd x)) c
         = cell_of (columns (frames w df)) (snd x) c"
      using cell_of_without_song by blast
    have b4: "lookup w' (song_path w folder song) =
           Some (File (Sheet (columns (frames w df)) (map snd (rows (frames w df)))))"
      if n: "''song_name'' \<notin> set (columns (frames w df))" and r: "rectangular (frames w df)"
    proof -
      have d: "set [''song_name''] \<inter> set (columns (frames w df)) = {}" using n by simp
      show ?thesis using wr unfolding drop_columns_absent[OF d r] .
    qed
    show ?thesis using b1 b2 b3 b4 by blast
  qed
  have c: "rows (frames v2 df) \<noteq> [] \<and>
      song = cell_of (columns (frames v2 df)) (snd (hd (rows (frames v2 df)))) ''song_name'' \<and>
      main_body od f v =
        (case whole_song_export df song folder v5 of
           (Inl e, w6) \<Rightarrow> (Inl e, w6)
         | (Inr u, w6) \<Rightarrow> split_by_difficulty df song folder w6)"
    if h: "remove_combined_suffix f v = (Inr p, v1)" "read_csv p v1 = (Inr df, v2)"
      "column_first df ''song_name'' v2 = (Inr song, v3)"
      "create_song_folder song od v3 = (Inr folder, v4)"
      "shutil_move p (path_join folder f) v4 = (Inr (), v5)"
    using column_first_value[OF h(3)] main_body_reaches_export[OF h] by (intro conjI) simp_all
  from a b c show ?thesis by blast
qed

theorem whole_song_export_one_sheet_witness:
  "lookup (snd (whole_song_export 0 (Str ''Airglow'') ''/w''
                  (snd (read_csv ''song_combined.csv'' example_world))))
     ''/w/Airglow.xlsx''
     = Some (File (Sheet [''difficulty'', ''score'']
               [[Str ''EZ'', NonStr ''1''], [Str ''HD'', NonStr ''2''],
                [Str ''HD'', NonStr ''3''], [Str ''IN'', NonStr ''4'']])) \<and>
   lookup (snd (whole_song_export 0 (Str ''Airglow'') ''/w''
                  (snd (read_csv ''song_combined.csv'' example_world))))
     ''/w/song_combined.csv'' = Some (File example_table) \<and>
   fst (whole_song_export 0 (Str ''S'') ''/w'' (snd (read_csv ''u.csv'' no_song_column_world)))
     = Inr () \<and>
   lookup (snd (whole_song_export 0 (Str ''S'') ''/w''
                  (snd (read_csv ''u.csv'' no_song_column_world))))
     ''/w/S.xlsx''
     = Some (File (Sheet [''difficulty'', ''score''] [[Str ''EZ'', NonStr ''1'']])) \<and>
   main_body ''/w/generated_files'' ''song_combined.csv'' example_world =
     (case whole_song_export 0 (Str ''Airglow'') ''/w/generated_files/Airglow''
             (snd (shutil_move ''song.csv''
                     (path_join ''/w/generated_files/Airglow'' ''song_combined.csv'')
                (snd (create_song_folder (Str ''Airglow'') ''/w/generated_files''
                (snd (column_first 0 ''song_name''
                (snd (read_csv ''song.csv''
                (snd (remove_combined_suffix ''song_combined.csv'' example_world))))))))))
      of (Inl e, w6) \<Rightarrow> (Inl e, w6)
       | (Inr u, w6) \<Rightarrow> split_by_difficulty 0 (Str ''Airglow'') ''/w/generated_files/Airglow'' w6)"
proof -
  let ?w = "snd (read_csv ''song_combined.csv'' example_world)"
  let ?w' = "snd (whole_song_export 0 (Str ''Airglow'') ''/w'' ?w)"
  have "fst (whole_song_export 0 (Str ''Airglow'') ''/w'' ?w) = Inr ()" by code_simp
  then have ok: "whole_song_export 0 (Str ''Airglow'') ''/w'' ?w = (Inr (), ?w')"
    by (rule pair_fst)
  note t = whole_song_export_one_sheet[THEN conjunct2, THEN conjunct1, THEN mp, OF ok]
  have p: "song_path ?w ''/w'' (Str ''Airglow'') = ''/w/Airglow.xlsx''" by code_simp
  have c: "filter (\<lambda>c. c \<noteq> ''song_name'') (columns (frames ?w 0)) = [''difficulty'', ''score'']"
    by code_simp
  have r: "map (\<lambda>x. drop_cells [''song_name''] (columns (frames ?w 0)) (snd x)) (rows (frames ?w 0))
           = [[Str ''EZ'', NonStr ''1''], [Str ''HD'', NonStr ''2''],
              [Str ''HD'', NonStr ''3''], [Str ''IN'', NonStr ''4'']]"
    by code_simp
  have a1: "lookup ?w' ''/w/Airglow.xlsx''
     = Some (File (Sheet [''difficulty'', ''score'']
               [[Str ''EZ'', NonStr ''1''], [Str ''HD'', NonStr ''2''],
                [Str ''HD'', NonStr ''3''], [Str ''IN'', NonStr ''4'']]))"
    using conjunct1[OF t] unfolding p c r .
  have ne: "''/w/song_combined.csv'' \<noteq> song_path ?w ''/w'' (Str ''Airglow'')"
    unfolding p by simp
  have old: "lookup ?w ''/w/song_combined.csv'' = Some (File example_table)" by code_simp
  have "lookup ?w' ''/w/song_combined.csv'' = lookup ?w ''/w/song_combined.csv''"
    using conjunct1[OF conjunct2[OF t], THEN spec, THEN mp, OF ne] .
  then have a2: "lookup ?w' ''/w/song_combined.csv'' = Some (File example_table)"
    unfolding old .
  let ?u = "snd (read_csv ''u.csv'' no_song_column_world)"
  let ?u' = "snd (whole_song_export 0 (Str ''S'') ''/w'' ?u)"
  have a3: "fst (whole_song_export 0 (Str ''S'') ''/w'' ?u) = Inr ()" by code_simp
  then have oku: "whole_song_export 0 (Str ''S'') ''/w'' ?u = (Inr (), ?u')"
    by (rule pair_fst)
  note tu = whole_song_export_one_sheet[THEN conjunct2, THEN conjunct1, THEN mp, OF oku]
  have n: "''song_name'' \<notin> set (columns (frames ?u 0))" by code_simp
  have rect: "rectangular (frames ?u 0)" by code_simp
  have pu: "song_path ?u ''/w'' (Str ''S'') = ''/w/S.xlsx''" by code_simp
  have cu: "columns (frames ?u 0) = [''difficulty'', ''score'']" by code_simp
  have ru: "map snd (rows (frames ?u 0)) = [[Str ''EZ'', NonStr ''1'']]" by code_simp
  have a4: "lookup ?u' ''/w/S.xlsx''
     = Some (File (Sheet [''difficulty'', ''score''] [[Str ''EZ'', NonStr ''1'']]))"
    using conjunct2[OF conjunct2[OF conjunct2[OF tu]], THEN mp, OF conjI[OF n rect]]
    unfolding pu cu ru .
  let ?E = "example_world"
  let ?v1 = "snd (remove_combined_suffix ''song_combined.csv'' ?E)"
  let ?v2 = "snd (read_csv ''song.csv'' ?v1)"
  let ?v3 = "snd (column_first 0 ''song_name'' ?v2)"
  let ?v4 = "snd (create_song_folder (Str ''Airglow'') ''/w/generated_files'' ?v3)"
  let ?F = "''/w/generated_files/Airglow''"
  let ?v5 = "snd (shutil_move ''song.csv'' (path_join ?F ''song_combined.csv'') ?v4)"
  have "fst (remove_combined_suffix ''song_combined.csv'' ?E) = Inr ''song.csv''" by code_simp
  then have b1: "remove_combined_suffix ''song_combined.csv'' ?E = (Inr ''song.csv'', ?v1)"
    by (rule pair_fst)
  have "fst (read_csv ''song.csv'' ?v1) = Inr 0" by code_simp
  then have b2: "read_csv ''song.csv'' ?v1 = (Inr 0, ?v2)" by (rule pair_fst)
  have "fst (column_first 0 ''song_name'' ?v2) = Inr (Str ''Airglow'')" by code_simp
  then have b3: "column_first 0 ''song_name'' ?v2 = (Inr (Str ''Airglow''), ?v3)"
    by (rule pair_fst)
  have "fst (create_song_folder (Str ''Airglow'') ''/w/generated_files'' ?v3) = Inr ?F"
    by code_simp
  then have b4: "create_song_folder (Str ''Airglow'') ''/w/generated_files'' ?v3 = (Inr ?F, ?v4)"
    by (rule pair_fst)
  have "fst (shutil_move ''song.csv'' (path_join ?F ''song_combined.csv'') ?v4) = Inr ()"
    by code_simp
  then have b5: "shutil_move ''song.csv'' (path_join ?F ''song_combined.csv'') ?v4 = (Inr (), ?v5)"
    by (rule pair_fst)
  note tm = whole_song_export_one_sheet[THEN conjunct2, THEN conjunct2, THEN mp,
      OF conjI[OF b1 conjI[OF b2 conjI[OF b3 conjI[OF b4 b5]]]]]
  have a5: "main_body ''/w/generated_files'' ''song_combined.csv'' ?E =
     (case whole_song_export 0 (Str ''Airglow'') ?F ?v5
      of (Inl e, w6) \<Rightarrow> (Inl e, w6)
       | (Inr u, w6) \<Rightarrow> split_by_difficulty 0 (Str ''Airglow'') ?F w6)"
    using conjunct2[OF conjunct2[OF tm]] .
  show ?thesis using a1 a2 a3 a4 a5 by (intro conjI)
qed

section \<open>The loaded table after the export\<close>

lemma os_makedirs_store:
  assumes "os_makedirs path w = (r, w')"
  shows "frames w' = frames w" and "next_ref w' = next_ref w" and "cwd w' = cwd w"
  using assms by (auto simp: os_makedirs_def Let_def split: prod.splits)

lemma create_song_folder_store:
  assumes "create_song_folder s od w = (r, w')"
  shows "frames w' = frames w \<and> next_ref w' = next_ref w \<and> cwd w' = cwd w"
proof (cases s)
  case (NonStr x)
  with assms show ?thesis by (simp add: create_song_folder_def)
next
  case (Str n)
  obtain r1 w1 where m: "os_makedirs (path_join od n) w = (r1, w1)"
    by (cases "os_makedirs (path_join od n) w")
  have "w' = w1" using assms Str m by (cases r1) (simp_all add: create_song_folder_def Let_def)
  with os_makedirs_store[OF m] show ?thesis by simp
qed

lemma os_rename_store:
  assumes "os_rename s d w = (r, w')"
  shows "frames w' = frames w \<and> next_ref w' = next_ref w \<and> cwd w' = cwd w"
  using assms
  by (auto simp: os_rename_def Let_def split: if_splits option.splits node.splits)

lemma shutil_move_store:
  assumes "shutil_move s d w = (r, w')"
  shows "frames w' = frames w \<and> next_ref w' = next_ref w \<and> cwd w' = cwd w"
  using assms os_rename_store
  by (auto simp: shutil_move_def Let_def split: if_splits)

lemma column_first_world: "column_first df c w = (r, w') \<Longrightarrow> w' = w"
  by (auto simp: column_first_def split: if_splits list.splits)

lemma read_csv_loaded:
  assumes "read_csv p w = (Inr df, w')"
  shows "df < next_ref w'"
    and "\<exists>h rs. lookup w (abspath w p) = Some (File (Delimited h rs)) \<and>
           columns (frames w' df) = h \<and> map snd (rows (frames w' df)) = rs"
  using assms
  by (auto simp: read_csv_def alloc_def split: option.splits node.splits content.splits if_splits)

text \<open>
  C9. The export of the whole table leaves the loaded table object as it is: it drops the
  column in a new object. So every tier's partition is the same after the export as before.
  In the loop body, when the export has returned, the partitioner is called with the same
  table object, and in the world it starts in that object still has the header and the rows
  read from the input file, the \<^verbatim>\<open>song_name\<close> column among them.
\<close>

theorem export_keeps_loaded_table:
  "(df < next_ref w \<and> whole_song_export df song folder w = (r, w') \<longrightarrow>
      frames w' df = frames w df \<and>
      (\<forall>d. partition_rows df d w' = partition_rows df d w)) \<and>
   (remove_combined_suffix f v = (Inr p, v1) \<and> read_csv p v1 = (Inr df, v2) \<and>
    column_first df ''song_name'' v2 = (Inr song, v3) \<and>
    create_song_folder song od v3 = (Inr folder, v4) \<and>
    shutil_move p (path_join folder f) v4 = (Inr (), v5) \<and>
    whole_song_export df song folder v5 = (Inr (), v6) \<longrightarrow>
      main_body od f v = split_by_difficulty df song folder v6 \<and>
      frames v6 df = frames v2 df \<and>
      ''song_name'' \<in> set (columns (frames v6 df)) \<and>
      (\<exists>h rs. lookup v1 (abspath v1 p) = Some (File (Delimited h rs)) \<and>
         columns (frames v6 df) = h \<and> map snd (rows (frames v6 df)) = rs))"
proof -
  have a: "frames w' df = frames w df \<and>
      (\<forall>d. partition_rows df d w' = partition_rows df d w)"
    if h: "df < next_ref w" "whole_song_export df song folder w = (r, w')"
  proof -
    have f: "frames w' df = frames w df"
      by (rule whole_song_export_store(3)[OF h(2) h(1)])
    then show ?thesis using partition_rows_cong[OF f] by blast
  qed
  have b: "main_body od f v = split_by_difficulty df song folder v6 \<and>
      frames v6 df = frames v2 df \<and>
      ''song_name'' \<in> set (columns (frames v6 df)) \<and>
      (\<exists>h rs. lookup v1 (abspath v1 p) = Some (File (Delimited h rs)) \<and>
         columns (frames v6 df) = h \<and> map snd (rows (frames v6 df)) = rs)"
    if h: "remove_combined_suffix f v = (Inr p, v1)" "read_csv p v1 = (Inr df, v2)"
      "column_first df ''song_name'' v2 = (Inr song, v3)"
      "create_song_folder song od v3 = (Inr folder, v4)"
      "shutil_move p (path_join folder f) v4 = (Inr (), v5)"
      "whole_song_export df song folder v5 = (Inr (), v6)"
  proof -
    have m: "main_body od f v = split_by_difficulty df song folder v6"
      unfolding main_body_reaches_export[OF h(1-5)] h(6) by simp
    have v3: "v3 = v2" by (rule column_first_world[OF h(3)])
    note s4 = create_song_folder_store[OF h(4)]
    note s5 = shutil_move_store[OF h(5)]
    have f5: "frames v5 = frames v2" using s4 s5 v3 by simp
    have n5: "next_ref v5 = next_ref v2" using s4 s5 v3 by simp
    have lt: "df < next_ref v5" using read_csv_loaded(1)[OF h(2)] n5 by simp
    have f6: "frames v6 df = frames v2 df"
      using whole_song_export_store(3)[OF h(6) lt] f5 by simp
    have sn: "''song_name'' \<in> set (columns (frames v2 df))"
      using h(3) by (auto simp: column_first_def split: if_splits)
    show ?thesis using m f6 sn read_csv_loaded(2)[OF h(2)] by simp
  qed
  from a b show ?thesis by blast
qed

theorem export_keeps_loaded_table_witness:
  "columns (frames
      (snd (whole_song_export 0 (Str ''Airglow'') ''/w/generated_files/Airglow''
      (snd (shutil_move ''song.csv''
              (path_join ''/w/generated_files/Airglow'' ''song_combined.csv'')
      (snd (create_song_folder (Str ''Airglow'') ''/w/generated_files''
      (snd (column_first 0 ''song_name''
      (snd (read_csv ''song.csv''
      (snd (remove_combined_suffix ''song_combined.csv'' example_world)))))))))))) 0)
     = [''song_name'', ''difficulty'', ''score''] \<and>
   map snd (rows (frames
      (snd (whole_song_export 0 (Str ''Airglow'') ''/w/generated_files/Airglow''
      (snd (shutil_move ''song.csv''
              (path_join ''/w/generated_files/Airglow'' ''song_combined.csv'')
      (snd (create_song_folder (Str ''Airglow'') ''/w/generated_files''
      (snd (column_first 0 ''song_name''
      (snd (read_csv ''song.csv''
      (snd (remove_combined_suffix ''song_combined.csv'' example_world)))))))))))) 0))
     = [[Str ''Airglow'', Str ''EZ'', NonStr ''1''],
        [Str ''Airglow'', Str ''HD'', NonStr ''2''],
        [Str ''Airglow'', Str ''HD'', NonStr ''3''],
        [Str ''Airglow'', Str ''IN'', NonStr ''4'']] \<and>
   main_body ''/w/generated_files'' ''song_combined.csv'' example_world =
     split_by_difficulty 0 (Str ''Airglow'') ''/w/generated_files/Airglow''
      (snd (whole_song_export 0 (Str ''Airglow'') ''/w/generated_files/Airglow''
      (snd (shutil_move ''song.csv''
              (path_join ''/w/generated_files/Airglow'' ''song_combined.csv'')
      (snd (create_song_folder (Str ''Airglow'') ''/w/generated_files''
      (snd (column_first 0 ''song_name''
      (snd (read_csv ''song.csv''
      (snd (remove_combined_suffix ''song_combined.csv'' example_world)))))))))))) \<and>
   partition_rows 0 ''HD''
     (snd (whole_song_export 0 (Str ''Airglow'') ''/w''
             (snd (read_csv ''song_combined.csv'' example_world))))
     = [(1, [Str ''Airglow'', Str ''HD'', NonStr ''2'']),
        (2, [Str ''Airglow'', Str ''HD'', NonStr ''3''])]"
proof -
  let ?E = "example_world"
  let ?v1 = "snd (remove_combined_suffix ''song_combined.csv'' ?E)"
  let ?v2 = "snd (read_csv ''song.csv'' ?v1)"
  let ?v3 = "snd (column_first 0 ''song_name'' ?v2)"
  let ?v4 = "snd (create_song_folder (Str ''Airglow'') ''/w/generated_files'' ?v3)"
  let ?F = "''/w/generated_files/Airglow''"
  let ?v5 = "snd (shutil_move ''song.csv'' (path_join ?F ''song_combined.csv'') ?v4)"
  let ?v6 = "snd (whole_song_export 0 (Str ''Airglow'') ?F ?v5)"
  have "fst (remove_combined_suffix ''song_combined.csv'' ?E) = Inr ''song.csv''" by code_simp
  then have b1: "remove_combined_suffix ''song_combined.csv'' ?E = (Inr ''song.csv'', ?v1)"
    by (rule pair_fst)
  have "fst (read_csv ''song.csv'' ?v1) = Inr 0" by code_simp
  then have b2: "read_csv ''song.csv'' ?v1 = (Inr 0, ?v2)" by (rule pair_fst)
  have "fst (column_first 0 ''song_name'' ?v2) = Inr (Str ''Airglow'')" by code_simp
  then have b3: "column_first 0 ''song_name'' ?v2 = (Inr (Str ''Airglow''), ?v3)"
    by (rule pair_fst)
  have "fst (create_song_folder (Str ''Airglow'') ''/w/generated_files'' ?v3) = Inr ?F"
    by code_simp
  then have b4: "create_song_folder (Str ''Airglow'') ''/w/generated_files'' ?v3 = (Inr ?F, ?v4)"
    by (rule pair_fst)
  have "fst (shutil_move ''song.csv'' (path_join ?F ''song_combined.csv'') ?v4) = Inr ()"
    by code_simp
  then have b5: "shutil_move ''song.csv'' (path_join ?F ''song_combined.csv'') ?v4 = (Inr (), ?v5)"
    by (rule pair_fst)
  have "fst (whole_song_export 0 (Str ''Airglow'') ?F ?v5) = Inr ()" by code_simp
  then have b6: "whole_song_export 0 (Str ''Airglow'') ?F ?v5 = (Inr (), ?v6)"
    by (rule pair_fst)
  note t = export_keeps_loaded_table[THEN conjunct2, THEN mp,
      OF conjI[OF b1 conjI[OF b2 conjI[OF b3 conjI[OF b4 conjI[OF b5 b6]]]]]]
  have f: "frames ?v6 0 = frames ?v2 0" using conjunct1[OF conjunct2[OF t]] .
  have c2: "columns (frames ?v2 0) = [''song_name'', ''difficulty'', ''score'']" by code_simp
  have r2: "map snd (rows (frames ?v2 0))
     = [[Str ''Airglow'', Str ''EZ'', NonStr ''1''],
        [Str ''Airglow'', Str ''HD'', NonStr ''2''],
        [Str ''Airglow'', Str ''HD'', NonStr ''3''],
        [Str ''Airglow'', Str ''IN'', NonStr ''4'']]" by code_simp
  have a1: "columns (frames ?v6 0) = [''song_name'', ''difficulty'', ''score'']"
    unfolding f by (rule c2)
  have a2: "map snd (rows (frames ?v6 0))
     = [[Str ''Airglow'', Str ''EZ'', NonStr ''1''],
        [Str ''Airglow'', Str ''HD'', NonStr ''2''],
        [Str ''Airglow'', Str ''HD'', NonStr ''3''],
        [Str ''Airglow'', Str ''IN'', NonStr ''4'']]"
    unfolding f by (rule r2)
  have a3: "main_body ''/w/generated_files'' ''song_combined.csv'' ?E =
     split_by_difficulty 0 (Str ''Airglow'') ?F ?v6"
    using conjunct1[OF t] .
  let ?w = "snd (read_csv ''song_combined.csv'' example_world)"
  let ?w' = "snd (whole_song_export 0 (Str ''Airglow'') ''/w'' ?w)"
  have lt: "0 < next_ref ?w" by code_simp
  have ex: "whole_song_export 0 (Str ''Airglow'') ''/w'' ?w
              = (fst (whole_song_export 0 (Str ''Airglow'') ''/w'' ?w), ?w')"
    by (rule prod.collapse[symmetric])
  note u = export_keeps_loaded_table[THEN conjunct1, THEN mp, OF conjI[OF lt ex]]
  have pw: "partition_rows 0 ''HD'' ?w
     = [(1, [Str ''Airglow'', Str ''HD'', NonStr ''2'']),
        (2, [Str ''Airglow'', Str ''HD'', NonStr ''3''])]" by code_simp
  have a4: "partition_rows 0 ''HD'' ?w'
     = [(1, [Str ''Airglow'', Str ''HD'', NonStr ''2'']),
        (2, [Str ''Airglow'', Str ''HD'', NonStr ''3''])]"
    using conjunct2[OF u, THEN spec, of "''HD''"] unfolding pw .
  show ?thesis using a1 a2 a3 a4 by (intro conjI)
qed

section \<open>Rows of an unknown tier\<close>

lemma unknown_tier_row_differs:
  assumes "y \<in> set (partition_rows df d w)" and "''difficulty'' \<in> set (columns (frames w df))"
    and "cell_of (columns (frames w df)) r ''difficulty'' \<noteq> Str d"
  shows "drop_cells [''song_name''] (columns (frames w df)) (snd y)
           \<noteq> drop_cells [''song_name''] (columns (frames w df)) r"
proof
  let ?cols = "columns (frames w df)"
  let ?cols' = "filter (\<lambda>c. c \<noteq> ''song_name'') ?cols"
  assume e: "drop_cells [''song_name''] ?cols (snd y) = drop_cells [''song_name''] ?cols r"
  have ne: "''difficulty'' \<noteq> ''song_name''" by simp
  have "cell_of ?cols (snd y) ''difficulty'' = Str d"
    using assms(1) unfolding partition_rows_set[OF assms(2)] by simp
  then have "cell_of ?cols' (drop_cells [''song_name''] ?cols (snd y)) ''difficulty'' = Str d"
    unfolding cell_of_without_song[OF ne] .
  then have "cell_of ?cols' (drop_cells [''song_name''] ?cols r) ''difficulty'' = Str d"
    unfolding e .
  then have "cell_of ?cols r ''difficulty'' = Str d"
    unfolding cell_of_without_song[OF ne] .
  with assms(3) show False by simp
qed

text \<open>
  C10. Let the table have a \<^verbatim>\<open>difficulty\<close> column and a row whose tier is none of the four,
  and let the export of the whole table and then the partitioner return, as in the loop
  body. The row is in no partition. A tier with an empty partition has its two paths as
  they were before; a tier with rows has its two files with the same header and rows, and
  the row (without its \<^verbatim>\<open>song_name\<close> cell, as the files hold rows) is not among them. The
  spreadsheet of the whole song is still there after the partitioner and has the row.
\<close>

theorem unknown_tier_only_in_whole_export:
  assumes "''difficulty'' \<in> set (columns (frames w df))" and "df < next_ref w"
    and "(i, r) \<in> set (rows (frames w df))"
    and "cell_of (columns (frames w df)) r ''difficulty'' \<notin> Str ` set difficulties"
    and "whole_song_export df song folder w = (Inr (), w1)"
    and "split_by_difficulty df song folder w1 = (Inr (), w2)"
  shows "(\<forall>d\<in>set difficulties. (i, r) \<notin> set (partition_rows df d w1)) \<and>
         (\<forall>d\<in>set difficulties.
            if partition_rows df d w1 = [] then
              lookup w2 (tier_path w folder song d ''.csv'')
                = lookup w (tier_path w folder song d ''.csv'') \<and>
              lookup w2 (tier_path w folder song d ''.xlsx'')
                = lookup w (tier_path w folder song d ''.xlsx'')
            else
              (\<exists>cs rws.
                 lookup w2 (tier_path w folder song d ''.csv'') = Some (File (Delimited cs rws)) \<and>
                 lookup w2 (tier_path w folder song d ''.xlsx'') = Some (File (Sheet cs rws)) \<and>
                 drop_cells [''song_name''] (columns (frames w df)) r \<notin> set rws)) \<and>
         (\<exists>rws.
            lookup w2 (song_path w folder song) =
              Some (File (Sheet (filter (\<lambda>c. c \<noteq> ''song_name'') (columns (frames w df))) rws)) \<and>
            drop_cells [''song_name''] (columns (frames w df)) r \<in> set rws)"
proof -
  let ?cols = "columns (frames w df)"
  note s = whole_song_export_store[OF assms(5)]
  have f: "frames w1 df = frames w df" by (rule s(3)[OF assms(2)])
  have col1: "''difficulty'' \<in> set (columns (frames w1 df))" using assms(1) f by simp
  have v1: "df < next_ref w1" using s(2) assms(2) by simp
  have l: "split_by_difficulty_loop df song folder difficulties w1 = (Inr (), w2)"
    using assms(6) by (simp only: split_by_difficulty_def)
  have unk: "cell_of ?cols r ''difficulty'' \<noteq> Str d" if "d \<in> set difficulties" for d
    using assms(4) that by blast
  have a: "\<forall>d\<in>set difficulties. (i, r) \<notin> set (partition_rows df d w1)"
  proof
    fix d assume d: "d \<in> set difficulties"
    show "(i, r) \<notin> set (partition_rows df d w1)"
      unfolding partition_rows_set[OF col1] f using unk[OF d] by simp
  qed
  have b: "if partition_rows df d w1 = [] then
              lookup w2 (tier_path w folder song d ''.csv'')
                = lookup w (tier_path w folder song d ''.csv'') \<and>
              lookup w2 (tier_path w folder song d ''.xlsx'')
                = lookup w (tier_path w folder song d ''.xlsx'')
            else
              (\<exists>cs rws.
                 lookup w2 (tier_path w folder song d ''.csv'') = Some (File (Delimited cs rws)) \<and>
                 lookup w2 (tier_path w folder song d ''.xlsx'') = Some (File (Sheet cs rws)) \<and>
                 drop_cells [''song_name''] ?cols r \<notin> set rws)"
    if d: "d \<in> set difficulties" for d
  proof (cases "partition_rows df d w1 = []")
    case True
    have k: "lookup w2 (tier_path w folder song d e) = lookup w (tier_path w folder song d e)"
      if e: "e = ''.csv'' \<or> e = ''.xlsx''" for e
    proof -
      have "lookup w2 (tier_path w1 folder song d e) = lookup w1 (tier_path w1 folder song d e)"
        by (rule loop_skipped[OF col1 v1 l subset_refl d True e])
      then have "lookup w2 (tier_path w folder song d e) = lookup w1 (tier_path w folder song d e)"
        unfolding tier_path_cwd[OF s(1)] .
      moreover have "lookup w1 (tier_path w folder song d e) = lookup w (tier_path w folder song d e)"
        by (rule whole_song_export_other[OF assms(5)]) (rule song_path_tier[symmetric])
      ultimately show ?thesis by simp
    qed
    have "lookup w2 (tier_path w folder song d ''.csv'')
                = lookup w (tier_path w folder song d ''.csv'')" by (rule k) simp
    moreover have "lookup w2 (tier_path w folder song d ''.xlsx'')
                = lookup w (tier_path w folder song d ''.xlsx'')" by (rule k) simp
    ultimately show ?thesis using True by simp
  next
    case False
    let ?rws = "map (\<lambda>x. drop_cells [''song_name''] ?cols (snd x)) (partition_rows df d w1)"
    note wr = loop_written[OF col1 v1 l distinct_difficulties subset_refl d False]
    have pr: "partition_rows df d w1 = rows (select_rows (frames w df) ''difficulty'' d)"
      using partition_rows_select[OF col1, of d] unfolding f .
    have c1: "lookup w2 (tier_path w folder song d ''.csv'') =
                Some (File (Delimited (filter (\<lambda>c. c \<noteq> ''song_name'') ?cols) ?rws))"
      using conjunct1[OF wr]
      unfolding columns_tier_export rows_tier_export tier_path_cwd[OF s(1)] f pr .
    have c2: "lookup w2 (tier_path w folder song d ''.xlsx'') =
                Some (File (Sheet (filter (\<lambda>c. c \<noteq> ''song_name'') ?cols) ?rws))"
      using conjunct2[OF wr]
      unfolding columns_tier_export rows_tier_export tier_path_cwd[OF s(1)] f pr .
    have c3: "drop_cells [''song_name''] ?cols r \<notin> set ?rws"
    proof
      assume "drop_cells [''song_name''] ?cols r \<in> set ?rws"
      then obtain y where y: "y \<in> set (partition_rows df d w1)"
        "drop_cells [''song_name''] ?cols (snd y) = drop_cells [''song_name''] ?cols r"
        by auto
      have u: "cell_of (columns (frames w1 df)) r ''difficulty'' \<noteq> Str d"
        unfolding f by (rule unk[OF d])
      from unknown_tier_row_differs[OF y(1) col1 u] y(2) show False unfolding f by simp
    qed
    from c1 c2 c3 False show ?thesis by auto
  qed
  have c: "\<exists>rws.
            lookup w2 (song_path w folder song) =
              Some (File (Sheet (filter (\<lambda>c. c \<noteq> ''song_name'') ?cols) rws)) \<and>
            drop_cells [''song_name''] ?cols r \<in> set rws"
  proof -
    let ?rws = "map (\<lambda>x. drop_cells [''song_name''] ?cols (snd x)) (rows (frames w df))"
    have w1: "lookup w1 (song_path w folder song) =
                Some (File (Sheet (filter (\<lambda>c. c \<noteq> ''song_name'') ?cols) ?rws))"
      using whole_song_export_written[OF assms(5)]
      unfolding columns_without_song rows_without_song .
    have other: "\<forall>d\<in>set difficulties.
        song_path w folder song \<noteq> tier_path w1 folder song d ''.csv'' \<and>
        song_path w folder song \<noteq> tier_path w1 folder song d ''.xlsx''"
      unfolding tier_path_cwd[OF s(1)] using song_path_tier by blast
    have "lookup w2 (song_path w folder song) = lookup w1 (song_path w folder song)"
      by (rule loop_other[OF col1 v1 l other])
    then have w2: "lookup w2 (song_path w folder song) =
                Some (File (Sheet (filter (\<lambda>c. c \<noteq> ''song_name'') ?cols) ?rws))"
      unfolding w1 .
    have "drop_cells [''song_name''] ?cols (snd (i, r)) \<in> set ?rws"
      using assms(3) unfolding set_map by (rule imageI)
    then have "drop_cells [''song_name''] ?cols r \<in> set ?rws" by simp
    with w2 show ?thesis by blast
  qed
  show ?thesis using a b c by blast
qed

theorem unknown_tier_only_in_whole_export_witness:
  "(1, [Str ''Airglow'', Str ''Legacy'', NonStr ''2''])
     \<notin> set (partition_rows 0 ''EZ''
              (snd (whole_song_export 0 (Str ''Airglow'') ''/w''
                      (snd (read_csv ''t.csv'' unknown_tier_world))))) \<and>
   (1, [Str ''Airglow'', Str ''Legacy'', NonStr ''2''])
     \<notin> set (partition_rows 0 ''AT''
              (snd (whole_song_export 0 (Str ''Airglow'') ''/w''
                      (snd (read_csv ''t.csv'' unknown_tier_world))))) \<and>
   lookup (snd (split_by_difficulty 0 (Str ''Airglow'') ''/w''
             (snd (whole_song_export 0 (Str ''Airglow'') ''/w''
                     (snd (read_csv ''t.csv'' unknown_tier_world))))))
     ''/w/Airglow_EZ.csv''
     = Some (File (Delimited [''difficulty'', ''score''] [[Str ''EZ'', NonStr ''1'']])) \<and>
   lookup (snd (split_by_difficulty 0 (Str ''Airglow'') ''/w''
             (snd (whole_song_export 0 (Str ''Airglow'') ''/w''
                     (snd (read_csv ''t.csv'' unknown_tier_world))))))
     ''/w/Airglow.xlsx''
     = Some (File (Sheet [''difficulty'', ''score'']
               [[Str ''EZ'', NonStr ''1''], [Str ''Legacy'', NonStr ''2'']])) \<and>
   map fst (filter (\<lambda>(p, n). n \<noteq> Dir)
     (nodes (snd (split_by_difficulty 0 (Str ''Airglow'') ''/w''
             (snd (whole_song_export 0 (Str ''Airglow'') ''/w''
                     (snd (read_csv ''t.csv'' unknown_tier_world))))))))
     = [''/w/t.csv'', ''/w/Airglow.xlsx'', ''/w/Airglow_EZ.csv'', ''/w/Airglow_EZ.xlsx'']"
proof -
  let ?w = "snd (read_csv ''t.csv'' unknown_tier_world)"
  let ?w1 = "snd (whole_song_export 0 (Str ''Airglow'') ''/w'' ?w)"
  let ?w2 = "snd (split_by_difficulty 0 (Str ''Airglow'') ''/w'' ?w1)"
  have h1: "''difficulty'' \<in> set (columns (frames ?w 0))" by code_simp
  have h2: "0 < next_ref ?w" by code_simp
  have h3: "(1, [Str ''Airglow'', Str ''Legacy'', NonStr ''2'']) \<in> set (rows (frames ?w 0))"
    by code_simp
  have h4: "cell_of (columns (frames ?w 0)) [Str ''Airglow'', Str ''Legacy'', NonStr ''2'']
              ''difficulty'' \<notin> Str ` set difficulties"
    by code_simp
  have "fst (whole_song_export 0 (Str ''Airglow'') ''/w'' ?w) = Inr ()" by code_simp
  then have h5: "whole_song_export 0 (Str ''Airglow'') ''/w'' ?w = (Inr (), ?w1)"
    by (rule pair_fst)
  have "fst (split_by_difficulty 0 (Str ''Airglow'') ''/w'' ?w1) = Inr ()" by code_simp
  then have h6: "split_by_difficulty 0 (Str ''Airglow'') ''/w'' ?w1 = (Inr (), ?w2)"
    by (rule pair_fst)
  note t = unknown_tier_only_in_whole_export[OF h1 h2 h3 h4 h5 h6]
  have ez: "''EZ'' \<in> set difficulties" by (simp add: difficulties_def)
  have at: "''AT'' \<in> set difficulties" by (simp add: difficulties_def)
  have a0: "(1, [Str ''Airglow'', Str ''Legacy'', NonStr ''2''])
              \<notin> set (partition_rows 0 ''EZ'' ?w1)"
    using conjunct1[OF t] ez by (rule bspec)
  have a1: "(1, [Str ''Airglow'', Str ''Legacy'', NonStr ''2''])
              \<notin> set (partition_rows 0 ''AT'' ?w1)"
    using conjunct1[OF t] at by (rule bspec)
  have a2: "lookup ?w2 ''/w/Airglow_EZ.csv''
     = Some (File (Delimited [''difficulty'', ''score''] [[Str ''EZ'', NonStr ''1'']]))"
    by code_simp
  have a3: "lookup ?w2 ''/w/Airglow.xlsx''
     = Some (File (Sheet [''difficulty'', ''score'']
               [[Str ''EZ'', NonStr ''1''], [Str ''Legacy'', NonStr ''2'']]))"
    by code_simp
  have a4: "map fst (filter (\<lambda>(p, n). n \<noteq> Dir) (nodes ?w2))
     = [''/w/t.csv'', ''/w/Airglow.xlsx'', ''/w/Airglow_EZ.csv'', ''/w/Airglow_EZ.xlsx'']"
    by code_simp
  show ?thesis using a0 a1 a2 a3 a4 by (intro conjI)
qed

end
